theory Spec2Isabelle
  imports Main
begin

section \<open>Values of the host language\<close>

text \<open>
  The plugin (\<^verbatim>\<open>src/index.ts\<close>) reads its settings out of the Serverless object with
  lodash's \<^verbatim>\<open>get\<close>, rewrites a \<^verbatim>\<open>package.json\<close> with lodash's \<^verbatim>\<open>set\<close> and \<^verbatim>\<open>unset\<close>,
  and calls Node's \<^verbatim>\<open>fs\<close>, \<^verbatim>\<open>path\<close>, \<^verbatim>\<open>child_process\<close> and the \<^verbatim>\<open>fast-glob\<close> package.
  Configuration and manifest are trees of JSON values. An object is the list of its own
  properties in property order; a number carries the text JavaScript prints for it.
  The value \<^verbatim>\<open>undefined\<close> is the \<open>None\<close> of a \<open>json option\<close>.
\<close>

datatype json =
    JNull
  | JBool bool
  | JNum string
  | JStr string
  | JArr "json list"
  | JObj "(string \<times> json) list"

datatype errno = ENOENT | EEXIST | EISDIR | ENOTDIR

datatype error =
    TypeError
  | SyntaxError
  | ServerlessError
  | FsError errno string
  | ExecError string

text \<open>Sequencing of steps that may throw: the first exception ends the computation.\<close>

definition andThen :: "error + 'a \<Rightarrow> ('a \<Rightarrow> error + 'b) \<Rightarrow> error + 'b" where
  "andThen m f = (case m of Inl e \<Rightarrow> Inl e | Inr x \<Rightarrow> f x)"

subsection \<open>Text\<close>

fun startsWith :: "string \<Rightarrow> string \<Rightarrow> bool" where
  "startsWith s [] = True"
| "startsWith [] (p # ps) = False"
| "startsWith (c # cs) (p # ps) = (c = p \<and> startsWith cs ps)"

text \<open>\<^verbatim>\<open>s.match(/node/)\<close> and \<^verbatim>\<open>s.indexOf(p) > -1\<close>: \<open>p\<close> occurs somewhere in \<open>s\<close>.\<close>

fun containsText :: "string \<Rightarrow> string \<Rightarrow> bool" where
  "containsText [] p = (p = [])"
| "containsText (c # cs) p = (startsWith (c # cs) p \<or> containsText cs p)"

text \<open>\<^verbatim>\<open>xs.join(sep)\<close> on an array of strings.\<close>

fun joinWith :: "string \<Rightarrow> string list \<Rightarrow> string" where
  "joinWith sep [] = []"
| "joinWith sep [x] = x"
| "joinWith sep (x # y # ys) = x @ sep @ joinWith sep (y # ys)"

text \<open>Splitting at every occurrence of a character; \<open>cur\<close> is the piece being read, reversed.\<close>

fun splitAt :: "char \<Rightarrow> string \<Rightarrow> string \<Rightarrow> string list" where
  "splitAt d cur [] = [rev cur]"
| "splitAt d cur (c # cs) =
     (if c = d then rev cur # splitAt d [] cs else splitAt d (c # cur) cs)"

subsection \<open>Coercions\<close>

text \<open>Truthiness, as \<^verbatim>\<open>if (v)\<close>, \<^verbatim>\<open>v || d\<close> and \<^verbatim>\<open>c ? a : b\<close> test it.\<close>

fun truthy :: "json \<Rightarrow> bool" where
  "truthy JNull = False"
| "truthy (JBool b) = b"
| "truthy (JNum n) = (n \<noteq> ''0'' \<and> n \<noteq> ''NaN'')"
| "truthy (JStr s) = (s \<noteq> [])"
| "truthy (JArr xs) = True"
| "truthy (JObj kvs) = True"

text \<open>
  \<^verbatim>\<open>String(v)\<close>, which is also the property key a value stands for and what a template
  literal prints. An array prints its elements joined by commas, \<^verbatim>\<open>null\<close> as nothing.
\<close>

fun toText :: "json \<Rightarrow> string" where
  "toText JNull = ''null''"
| "toText (JBool b) = (if b then ''true'' else ''false'')"
| "toText (JNum n) = n"
| "toText (JStr s) = s"
| "toText (JArr xs) =
     joinWith '','' (map (\<lambda>x. if x = JNull then [] else toText x) xs)"
| "toText (JObj kvs) = ''[object Object]''"

text \<open>One element of \<^verbatim>\<open>Array.prototype.join\<close>: \<^verbatim>\<open>null\<close> and \<^verbatim>\<open>undefined\<close> print as nothing.\<close>

definition joinElem :: "json \<Rightarrow> string" where
  "joinElem v = (if v = JNull then [] else toText v)"

text \<open>\<^verbatim>\<open>v.match(/node/)\<close>: only a string has the method; on anything else the call throws.\<close>

definition matchNode :: "json \<Rightarrow> error + bool" where
  "matchNode v = (case v of JStr s \<Rightarrow> Inr (containsText s ''node'') | _ \<Rightarrow> Inl TypeError)"

section \<open>lodash\<close>

text \<open>
  \<^verbatim>\<open>o[k]\<close> for the keys the plugin reads. None of them is \<^verbatim>\<open>length\<close>, an index or a
  member of a prototype, so the read is \<^verbatim>\<open>undefined\<close> on everything but an object that
  owns the key.
\<close>

fun own :: "json \<Rightarrow> string \<Rightarrow> json option" where
  "own (JObj kvs) k = map_of kvs k"
| "own v k = None"

text \<open>\<^verbatim>\<open>isObject\<close>: objects and arrays.\<close>

fun isObject :: "json \<Rightarrow> bool" where
  "isObject (JObj kvs) = True"
| "isObject (JArr xs) = True"
| "isObject v = False"

text \<open>
  \<^verbatim>\<open>castPath(path, object)\<close>. Every path the plugin passes holds a dot, so \<^verbatim>\<open>isKey\<close> is
  decided by its last test, \<^verbatim>\<open>path in Object(object)\<close>: an object that has a property
  named by the whole path string is read and written at that property. Otherwise
  \<^verbatim>\<open>stringToPath\<close> cuts the string at its dots (the paths hold no brackets).
\<close>

definition castPath :: "string \<Rightarrow> json \<Rightarrow> string list" where
  "castPath path object =
     (if own object path \<noteq> None then [path] else splitAt CHR ''.'' [] path)"

text \<open>
  \<^verbatim>\<open>baseGet\<close>: the loop stops at \<^verbatim>\<open>null\<close> and \<^verbatim>\<open>undefined\<close>, and the result is
  \<^verbatim>\<open>undefined\<close> unless the whole path was walked.
\<close>

fun walk :: "json option \<Rightarrow> string list \<Rightarrow> json option" where
  "walk v [] = v"
| "walk None (k # ks) = None"
| "walk (Some JNull) (k # ks) = None"
| "walk (Some v) (k # ks) = walk (own v k) ks"

definition baseGet :: "json \<Rightarrow> string list \<Rightarrow> json option" where
  "baseGet object path = (if path = [] then None else walk (Some object) path)"

text \<open>\<^verbatim>\<open>get(object, path)\<close> and \<^verbatim>\<open>get(object, path, defaultValue)\<close>.\<close>

definition get :: "json \<Rightarrow> string \<Rightarrow> json option" where
  "get object path = (if object = JNull then None else baseGet object (castPath path object))"

definition getOr :: "json \<Rightarrow> string \<Rightarrow> json \<Rightarrow> json" where
  "getOr object path dflt = (case get object path of None \<Rightarrow> dflt | Some v \<Rightarrow> v)"

text \<open>
  \<^verbatim>\<open>includes(collection, value)\<close> for a string \<open>value\<close>: membership in an array, in the
  values of an object, a substring test when the collection is itself a string, and
  false on anything else.
\<close>

fun lodashIncludes :: "json \<Rightarrow> string \<Rightarrow> bool" where
  "lodashIncludes (JArr xs) v = (JStr v \<in> set xs)"
| "lodashIncludes (JStr s) v = containsText s v"
| "lodashIncludes (JObj kvs) v = (JStr v \<in> set (map snd kvs))"
| "lodashIncludes c v = False"

text \<open>
  \<^verbatim>\<open>object[key] = value\<close> on an object: an existing property keeps its place, a new one
  goes last (the keys the plugin writes are no array indices).
\<close>

fun assign :: "(string \<times> json) list \<Rightarrow> string \<Rightarrow> json \<Rightarrow> (string \<times> json) list" where
  "assign [] k v = [(k, v)]"
| "assign (p # ps) k v = (if fst p = k then (k, v) # ps else p # assign ps k v)"

text \<open>\<^verbatim>\<open>delete object[key]\<close>.\<close>

definition remove :: "(string \<times> json) list \<Rightarrow> string \<Rightarrow> (string \<times> json) list" where
  "remove ps k = filter (\<lambda>p. fst p \<noteq> k) ps"

text \<open>
  The loop of \<^verbatim>\<open>baseSet\<close>. Before the last key, a property that holds no object is
  replaced by a fresh \<^verbatim>\<open>{}\<close> (the next key is no index). A named property assigned
  to an array is not part of what \<^verbatim>\<open>JSON.stringify\<close> prints, so the array stays as it is.
\<close>

fun setWalk :: "json \<Rightarrow> string list \<Rightarrow> json \<Rightarrow> json" where
  "setWalk (JObj kvs) [] v = JObj kvs"
| "setWalk (JObj kvs) [k] v = JObj (assign kvs k v)"
| "setWalk (JObj kvs) (k # k' # ks) v =
     JObj (assign kvs k
       (setWalk
         (case map_of kvs k of
            None \<Rightarrow> JObj []
          | Some c \<Rightarrow> if isObject c then c else JObj [])
         (k' # ks) v))"
| "setWalk other path v = other"

text \<open>\<^verbatim>\<open>set(object, path, value)\<close>: anything that is no object is returned as it is.\<close>

definition lodashSet :: "json \<Rightarrow> string \<Rightarrow> json \<Rightarrow> json" where
  "lodashSet object path v =
     (if isObject object then setWalk object (castPath path object) v else object)"

text \<open>
  \<^verbatim>\<open>unset(object, path)\<close>: \<^verbatim>\<open>baseUnset\<close> finds the parent with \<^verbatim>\<open>baseGet\<close> and deletes
  the last key there; with no parent nothing happens.
\<close>

fun unsetWalk :: "json \<Rightarrow> string list \<Rightarrow> json" where
  "unsetWalk (JObj kvs) [k] = JObj (remove kvs k)"
| "unsetWalk (JObj kvs) (k # k' # ks) =
     (case map_of kvs k of
        None \<Rightarrow> JObj kvs
      | Some c \<Rightarrow> JObj (assign kvs k (unsetWalk c (k' # ks))))"
| "unsetWalk other path = other"

definition lodashUnset :: "json \<Rightarrow> string \<Rightarrow> json" where
  "lodashUnset object path = unsetWalk object (castPath path object)"

section \<open>JSON.stringify\<close>

definition hexDigit :: "nat \<Rightarrow> char" where
  "hexDigit n = ''0123456789abcdef'' ! (n mod 16)"

text \<open>\<^verbatim>\<open>QuoteJSONString\<close>, one character at a time.\<close>

definition quoteChar :: "char \<Rightarrow> string" where
  "quoteChar c =
     (if c = CHR 0x22 then [CHR 0x5C, CHR 0x22]
      else if c = CHR 0x5C then [CHR 0x5C, CHR 0x5C]
      else if c = CHR 0x08 then [CHR 0x5C, CHR ''b'']
      else if c = CHR 0x0C then [CHR 0x5C, CHR ''f'']
      else if c = CHR 0x0A then [CHR 0x5C, CHR ''n'']
      else if c = CHR 0x0D then [CHR 0x5C, CHR ''r'']
      else if c = CHR 0x09 then [CHR 0x5C, CHR ''t'']
      else if (of_char c :: nat) < 32
        then [CHR 0x5C, CHR ''u'', CHR ''0'', CHR ''0'',
              hexDigit (of_char c div 16), hexDigit (of_char c)]
      else [c])"

definition quote :: "string \<Rightarrow> string" where
  "quote s = [CHR 0x22] @ concat (map quoteChar s) @ [CHR 0x22]"

text \<open>
  \<^verbatim>\<open>JSON.stringify(value, null, 2)\<close>: \<open>ind\<close> is the indentation of the enclosing line;
  every level adds the gap of two spaces.
\<close>

fun serialize :: "string \<Rightarrow> json \<Rightarrow> string" where
  "serialize ind JNull = ''null''"
| "serialize ind (JBool b) = (if b then ''true'' else ''false'')"
| "serialize ind (JNum n) =
     (if n = ''NaN'' \<or> n = ''Infinity'' \<or> n = ''-Infinity'' then ''null'' else n)"
| "serialize ind (JStr s) = quote s"
| "serialize ind (JArr xs) =
     (if xs = [] then ''[]''
      else ''['' @ [CHR 0x0A] @ (ind @ ''  '')
        @ joinWith ('','' @ [CHR 0x0A] @ (ind @ ''  ''))
            (map (\<lambda>x. serialize (ind @ ''  '') x) xs)
        @ [CHR 0x0A] @ ind @ '']'')"
| "serialize ind (JObj kvs) =
     (if kvs = [] then ''{}''
      else ''{'' @ [CHR 0x0A] @ (ind @ ''  '')
        @ joinWith ('','' @ [CHR 0x0A] @ (ind @ ''  ''))
            (map (\<lambda>kv. quote (fst kv) @ '': '' @ serialize (ind @ ''  '') (snd kv)) kvs)
        @ [CHR 0x0A] @ ind @ ''}'')"

definition stringify :: "json \<Rightarrow> string" where
  "stringify v = serialize [] v"

section \<open>Paths\<close>

text \<open>
  Node's POSIX \<^verbatim>\<open>path.normalize\<close>: empty and \<^verbatim>\<open>.\<close> segments go, \<^verbatim>\<open>..\<close> takes the segment
  before it away; a relative path keeps the \<^verbatim>\<open>..\<close> it cannot resolve.
\<close>

fun normalizeSegs :: "bool \<Rightarrow> string list \<Rightarrow> string list \<Rightarrow> string list" where
  "normalizeSegs allowAbove acc [] = rev acc"
| "normalizeSegs allowAbove acc (seg # segs) =
     (if seg = [] \<or> seg = ''.'' then normalizeSegs allowAbove acc segs
      else if seg = ''..'' then
        (case acc of
           [] \<Rightarrow> normalizeSegs allowAbove (if allowAbove then [''..''] else []) segs
         | t # ts \<Rightarrow>
             if t \<noteq> ''..'' then normalizeSegs allowAbove ts segs
             else normalizeSegs allowAbove (if allowAbove then ''..'' # acc else acc) segs)
      else normalizeSegs allowAbove (seg # acc) segs)"

definition normalize :: "string \<Rightarrow> string" where
  "normalize p =
     (if p = [] then ''.''
      else
        let isAbsolute = (hd p = CHR ''/'');
            trailing = (last p = CHR ''/'');
            body = joinWith ''/'' (normalizeSegs (\<not> isAbsolute) [] (splitAt CHR ''/'' [] p))
        in if body = [] then (if isAbsolute then ''/'' else if trailing then ''./'' else ''.'')
           else (if isAbsolute then ''/'' else []) @ body @ (if trailing then ''/'' else []))"

text \<open>\<^verbatim>\<open>path.join\<close>: the arguments that are not empty, joined by a slash and normalized.\<close>

definition joinPath :: "string list \<Rightarrow> string" where
  "joinPath args =
     (let parts = filter (\<lambda>a. a \<noteq> []) args
      in if parts = [] then ''.'' else normalize (joinWith ''/'' parts))"

text \<open>An argument of \<^verbatim>\<open>path.join\<close> that is no string makes it throw.\<close>

definition asPath :: "json option \<Rightarrow> error + string" where
  "asPath v = (case v of Some (JStr s) \<Rightarrow> Inr s | _ \<Rightarrow> Inl TypeError)"

section \<open>The Serverless object\<close>

text \<open>
  \<open>tree\<close> is the object \<^verbatim>\<open>this.serverless\<close> as data (\<^verbatim>\<open>service\<close>, \<^verbatim>\<open>config\<close>). \<open>registry\<close>
  is the registry of the host framework's \<^verbatim>\<open>Service\<close> class: \<^verbatim>\<open>getAllFunctions()\<close> lists
  its keys and \<^verbatim>\<open>getFunction(name)\<close> returns the definition or throws.
\<close>

record serverless =
  tree :: json
  registry :: "(string \<times> json) list"

definition getAllFunctions :: "serverless \<Rightarrow> string list" where
  "getAllFunctions s = map fst (registry s)"

definition getFunction :: "serverless \<Rightarrow> string \<Rightarrow> error + json" where
  "getFunction s name =
     (case map_of (registry s) name of None \<Rightarrow> Inl ServerlessError | Some f \<Rightarrow> Inr f)"

subsection \<open>Settings\<close>

definition getArchitecture :: "serverless \<Rightarrow> json" where
  "getArchitecture s = getOr (tree s) ''service.provider.architecture'' (JStr ''x86_64'')"

definition getPackageManager :: "serverless \<Rightarrow> json" where
  "getPackageManager s = getOr (tree s) ''service.custom.webpack.packager'' (JStr ''npm'')"

definition getPrismaVersion :: "serverless \<Rightarrow> json" where
  "getPrismaVersion s = getOr (tree s) ''service.custom.prisma.version'' (JStr [])"

definition getInstallDeps :: "serverless \<Rightarrow> json" where
  "getInstallDeps s = getOr (tree s) ''service.custom.prisma.installDeps'' (JBool True)"

definition getUseSymlink :: "serverless \<Rightarrow> json" where
  "getUseSymlink s =
     getOr (tree s) ''service.custom.prisma.useSymLinkForPrisma'' (JBool False)"

definition getIgnoredFunctions :: "serverless \<Rightarrow> json" where
  "getIgnoredFunctions s = getOr (tree s) ''service.custom.prisma.ignoreFunctions'' (JArr [])"

definition getProviderRuntime :: "serverless \<Rightarrow> json option" where
  "getProviderRuntime s = get (tree s) ''service.provider.runtime''"

subsection \<open>Function Selector\<close>

text \<open>\<^verbatim>\<open>!isUndefined(func.image)\<close>; reading a property of \<^verbatim>\<open>null\<close> throws.\<close>

definition isFunctionImage :: "json \<Rightarrow> error + bool" where
  "isFunctionImage func =
     (if func = JNull then Inl TypeError else Inr (own func ''image'' \<noteq> None))"

definition isFunctionIgnored :: "serverless \<Rightarrow> string \<Rightarrow> bool" where
  "isFunctionIgnored s funcName = lodashIncludes (getIgnoredFunctions s) funcName"

text \<open>
  \<^verbatim>\<open>providerRuntime = this.getProviderRuntime() || 'node'\<close>, then
  \<^verbatim>\<open>!!funcRuntime.match(/node/) || !!providerRuntime.match(/node/)\<close>: the second match
  is evaluated only when the first found nothing.
\<close>

definition isRuntimeNode :: "serverless \<Rightarrow> json \<Rightarrow> error + bool" where
  "isRuntimeNode s func =
     (let funcRuntime = getOr func ''handler.runtime'' (JStr []);
          providerRuntime =
            (case getProviderRuntime s of
               None \<Rightarrow> JStr ''node''
             | Some r \<Rightarrow> if truthy r then r else JStr ''node'')
      in andThen (matchNode funcRuntime)
           (\<lambda>m. if m then Inr True else matchNode providerRuntime))"

text \<open>The callback of \<^verbatim>\<open>functions.filter\<close> in \<^verbatim>\<open>getNodeFunctions\<close>.\<close>

definition keepFunction :: "serverless \<Rightarrow> string \<Rightarrow> error + bool" where
  "keepFunction s funcName =
     andThen (getFunction s funcName) (\<lambda>func.
     andThen (isFunctionImage func) (\<lambda>image.
       if image then Inr False
       else andThen (isRuntimeNode s func) (\<lambda>node.
         if \<not> node then Inr False
         else if isFunctionIgnored s funcName then Inr False
         else Inr True)))"

fun filterE :: "('a \<Rightarrow> error + bool) \<Rightarrow> 'a list \<Rightarrow> error + 'a list" where
  "filterE p [] = Inr []"
| "filterE p (x # xs) =
     andThen (p x) (\<lambda>keep.
     andThen (filterE p xs) (\<lambda>rest. Inr (if keep then x # rest else rest)))"

definition getNodeFunctions :: "serverless \<Rightarrow> error + string list" where
  "getNodeFunctions s = filterE (keepFunction s) (getAllFunctions s)"

definition getFunctionNames :: "serverless \<Rightarrow> error + string list" where
  "getFunctionNames s =
     (if truthy (getOr (tree s) ''service.package.individually'' (JBool False))
      then getNodeFunctions s else Inr [''service''])"

section \<open>Collaborators\<close>

text \<open>
  What the plugin calls outside itself. \<open>'w\<close> is the state of the machine (file system,
  installed packages). Each field is one call: its arguments, the state it runs in, and
  the exception or the result. \<open>rmSync\<close> takes the \<^verbatim>\<open>recursive\<close> flag (\<^verbatim>\<open>force\<close> is always
  set); \<open>cpSync\<close> is the call with \<^verbatim>\<open>force: true\<close>, \<open>symlinkSync\<close> the one with type
  \<^verbatim>\<open>'dir'\<close>. \<open>listFiles cwd\<close> is what fast-glob's walk below \<open>cwd\<close> finds, or the exception
  that ends it: the files, as paths relative to \<open>cwd\<close>, in the order it reports them. \<open>relative\<close> is \<^verbatim>\<open>path.relative\<close>, which
  resolves against the working directory of the process.
\<close>

record 'w host =
  readFileSync :: "string \<Rightarrow> 'w \<Rightarrow> error + string"
  writeFileSync :: "string \<Rightarrow> string \<Rightarrow> 'w \<Rightarrow> error + 'w"
  rmSync :: "string \<Rightarrow> bool \<Rightarrow> 'w \<Rightarrow> error + 'w"
  symlinkSync :: "string \<Rightarrow> string \<Rightarrow> 'w \<Rightarrow> error + 'w"
  cpSync :: "string \<Rightarrow> string \<Rightarrow> 'w \<Rightarrow> error + 'w"
  existsSync :: "string \<Rightarrow> 'w \<Rightarrow> bool"
  mkdirSync :: "string \<Rightarrow> 'w \<Rightarrow> error + 'w"
  listFiles :: "string \<Rightarrow> 'w \<Rightarrow> error + string list"
  execSync :: "string \<Rightarrow> string \<Rightarrow> 'w \<Rightarrow> error + 'w"
  jsonParse :: "string \<Rightarrow> error + json"
  relative :: "string \<Rightarrow> string \<Rightarrow> string"

text \<open>Every call on a collaborator, in the order the calls are made.\<close>

datatype event =
    Log string
  | ReadFile string
  | WriteFile string string
  | Rm string bool
  | Symlink string string
  | Cp string string
  | Exists string
  | Mkdir string
  | Glob "string list" string
  | Exec string string

record 'w world =
  machine :: 'w
  calls :: "event list"

definition emit :: "event \<Rightarrow> 'w world \<Rightarrow> 'w world" where
  "emit ev w = w\<lparr>calls := calls w @ [ev]\<rparr>"

text \<open>A call that changes the machine, or throws.\<close>

definition effect :: "event \<Rightarrow> ('w \<Rightarrow> error + 'w) \<Rightarrow> 'w world \<Rightarrow> error + 'w world" where
  "effect ev f w =
     (case f (machine w) of
        Inl e \<Rightarrow> Inl e
      | Inr m \<Rightarrow> Inr \<lparr>machine = m, calls = calls w @ [ev]\<rparr>)"

text \<open>\<^verbatim>\<open>this.log\<close>, the text-output callback of the host.\<close>

definition log :: "string \<Rightarrow> 'w world \<Rightarrow> error + 'w world" where
  "log msg w = Inr (emit (Log msg) w)"

section \<open>fast-glob\<close>

text \<open>
  Matching of one pattern against one relative path, for patterns made of literal
  characters and \<^verbatim>\<open>*\<close>: the star stands for any run of characters inside one path
  segment. The patterns of \<^verbatim>\<open>getPrismaEngines\<close> are of this kind for both mapped
  architectures.
\<close>

fun globMatch :: "string \<Rightarrow> string \<Rightarrow> bool" where
  "globMatch [] s = (s = [])"
| "globMatch (p # ps) [] = (p = CHR ''*'' \<and> globMatch ps [])"
| "globMatch (p # ps) (c # cs) =
     (if p = CHR ''*'' then globMatch ps (c # cs) \<or> (c \<noteq> CHR ''/'' \<and> globMatch (p # ps) cs)
      else c = p \<and> globMatch ps cs)"

text \<open>
  A pattern that starts with \<^verbatim>\<open>!\<close> is negative. A path is selected when a positive
  pattern matches it and no negative one does.
\<close>

definition positive :: "string list \<Rightarrow> string list" where
  "positive pats = filter (\<lambda>p. \<not> startsWith p ''!'') pats"

definition negative :: "string list \<Rightarrow> string list" where
  "negative pats = map tl (filter (\<lambda>p. startsWith p ''!'') pats)"

definition selected :: "string list \<Rightarrow> string \<Rightarrow> bool" where
  "selected pats f =
     (list_ex (\<lambda>p. globMatch p f) (positive pats)
      \<and> \<not> list_ex (\<lambda>p. globMatch p f) (negative pats))"

definition globSync ::
  "'w host \<Rightarrow> string list \<Rightarrow> string \<Rightarrow> 'w \<Rightarrow> error + string list" where
  "globSync h pats cwd m =
     andThen (listFiles h cwd m) (\<lambda>found. Inr (filter (selected pats) found))"

section \<open>The plugin\<close>

text \<open>\<^verbatim>\<open>runCommand\<close>: \<^verbatim>\<open>[command, args.join(' ')].join(' ')\<close>, run in \<open>cwd\<close>.\<close>

definition runCommand ::
  "'w host \<Rightarrow> json \<Rightarrow> string list \<Rightarrow> string \<Rightarrow> 'w world \<Rightarrow> error + 'w world" where
  "runCommand h command args cwd w =
     (let strArgs = joinWith '' '' args;
          cmd = joinWith '' '' [joinElem command, strArgs]
      in effect (Exec cmd cwd) (execSync h cmd cwd) w)"

subsection \<open>Architecture and engine patterns\<close>

definition getArchitectures :: "(string \<times> string) list" where
  "getArchitectures = [(''arm64'', ''linux-arm64''), (''x86_64'', ''rhel'')]"

text \<open>
  A key that the mapping does not own may still name a member of \<^verbatim>\<open>Object.prototype\<close>,
  which every object literal inherits. \<open>inherited k\<close> is the text such a member prints.
\<close>

definition inherited :: "string \<Rightarrow> string option" where
  "inherited k =
     (if k = ''__proto__'' then Some ''[object Object]''
      else if k = ''constructor'' then Some ''function Object() { [native code] }''
      else if k \<in> set [''hasOwnProperty'', ''isPrototypeOf'', ''propertyIsEnumerable'',
                       ''toLocaleString'', ''toString'', ''valueOf'', ''__defineGetter__'',
                       ''__defineSetter__'', ''__lookupGetter__'', ''__lookupSetter__'']
        then Some (''function '' @ k @ ''() { [native code] }'')
      else None)"

text \<open>
  \<^verbatim>\<open>this.getArchitectures()[this.getArchitecture()]\<close>, as the template literals print it:
  a missing key reads \<^verbatim>\<open>undefined\<close> and prints as that word.
\<close>

definition platformText :: "json \<Rightarrow> string" where
  "platformText arch =
     (case map_of getArchitectures (toText arch) of
        Some p \<Rightarrow> p
      | None \<Rightarrow> (case inherited (toText arch) of Some t \<Rightarrow> t | None \<Rightarrow> ''undefined''))"

definition getPrismaEngines :: "serverless \<Rightarrow> string list" where
  "getPrismaEngines s =
     (let prefix = platformText (getArchitecture s)
      in [''node_modules/.prisma/client/libquery_engine*'',
          ''!node_modules/.prisma/client/libquery_engine-'' @ prefix @ ''*'',
          ''node_modules/prisma/libquery_engine*'',
          ''!node_modules/prisma/libquery_engine-'' @ prefix @ ''*'',
          ''node_modules/@prisma/engines/libquery_engine*'',
          ''!node_modules/@prisma/engines/libquery_engine-'' @ prefix @ ''*'',
          ''node_modules/@prisma/engines/migration-engine*'',
          ''!node_modules/@prisma/engines/migration-engine-'' @ prefix @ ''*'',
          ''node_modules/@prisma/engines/prisma-fmt*'',
          ''!node_modules/@prisma/engines/prisma-fmt-'' @ prefix @ ''*'',
          ''node_modules/@prisma/engines/introspection-engine*'',
          ''!node_modules/@prisma/engines/introspection-engine-'' @ prefix @ ''*'',
          ''node_modules/@prisma/engines/schema-engine*'',
          ''!node_modules/@prisma/engines/schema-engine-'' @ prefix @ ''*''])"

subsection \<open>Package-Script Manager\<close>

datatype scriptAction = Add | Remove

definition generateKey :: string where
  "generateKey = ''scripts.prisma:generate''"

definition managePackageScripts ::
  "'w host \<Rightarrow> scriptAction \<Rightarrow> string \<Rightarrow> 'w world \<Rightarrow> error + 'w world" where
  "managePackageScripts h action cwd w =
     (let packageJsonPath = joinPath [cwd, ''package.json'']
      in andThen (readFileSync h packageJsonPath (machine w)) (\<lambda>contents.
         andThen (jsonParse h contents) (\<lambda>parsed.
           let changed =
             (case action of
                Add \<Rightarrow> lodashSet parsed generateKey (JStr ''prisma generate'')
              | Remove \<Rightarrow> lodashUnset parsed generateKey)
           in effect (WriteFile packageJsonPath (stringify changed))
                (writeFileSync h packageJsonPath (stringify changed))
                (emit (ReadFile packageJsonPath) w))))"

subsection \<open>Tool Lifecycle Manager\<close>

text \<open>\<^verbatim>\<open>packageName.join('@')\<close>, after the version was pushed when it is truthy.\<close>

definition packageSpecifier :: "serverless \<Rightarrow> string" where
  "packageSpecifier s =
     (if truthy (getPrismaVersion s)
      then joinWith ''@'' [''prisma'', joinElem (getPrismaVersion s)]
      else joinWith ''@'' [''prisma''])"

definition installPrismaPackage ::
  "'w host \<Rightarrow> serverless \<Rightarrow> string \<Rightarrow> 'w world \<Rightarrow> error + 'w world" where
  "installPrismaPackage h s cwd w =
     andThen (log ''Installing prisma devDependencies...'' w) (\<lambda>w1.
     andThen (managePackageScripts h Add cwd w1) (\<lambda>w2.
       runCommand h (getPackageManager s) [''install'', ''-D'', packageSpecifier s] cwd w2))"

definition deletePrismaDirectories ::
  "'w host \<Rightarrow> string \<Rightarrow> 'w world \<Rightarrow> error + 'w world" where
  "deletePrismaDirectories h cwd w =
     andThen
       (effect (Rm (joinPath [cwd, ''node_modules'', ''.bin/prisma'']) True)
          (rmSync h (joinPath [cwd, ''node_modules'', ''.bin/prisma'']) True) w)
       (\<lambda>w1.
         effect (Rm (joinPath [cwd, ''node_modules'', ''prisma'']) True)
           (rmSync h (joinPath [cwd, ''node_modules'', ''prisma'']) True) w1)"

definition removePrismaPackage ::
  "'w host \<Rightarrow> serverless \<Rightarrow> string \<Rightarrow> 'w world \<Rightarrow> error + 'w world" where
  "removePrismaPackage h s cwd w =
     andThen (log ''Removing prisma devDependencies...'' w) (\<lambda>w1.
     andThen (managePackageScripts h Remove cwd w1) (\<lambda>w2.
     andThen (runCommand h (getPackageManager s) [''remove'', ''prisma''] cwd w2) (\<lambda>w3.
       deletePrismaDirectories h cwd w3)))"

subsection \<open>Schema Materializer\<close>

datatype schemaAction = CopySchema | SymlinkSchema

definition managePrismaSchema ::
  "'w host \<Rightarrow> schemaAction \<Rightarrow> string \<Rightarrow> string \<Rightarrow> 'w world \<Rightarrow> error + 'w world" where
  "managePrismaSchema h action cwd prismaDir w =
     (let targetDir = joinPath [cwd, ''prisma''];
          relativePath = relative h cwd prismaDir
      in case action of
           SymlinkSchema \<Rightarrow>
             andThen (log ''Creating symlink for Prisma schema...'' w) (\<lambda>w1.
               effect (Symlink relativePath targetDir)
                 (symlinkSync h relativePath targetDir) w1)
         | CopySchema \<Rightarrow>
             andThen (log ''Copying Prisma schema...'' w) (\<lambda>w1.
               let sourceSchemaPath = joinPath [prismaDir, ''schema.prisma''];
                   targetSchemaPath = joinPath [targetDir, ''schema.prisma''];
                   w2 = emit (Exists targetDir) w1
               in andThen
                    (if \<not> existsSync h targetDir (machine w1)
                     then effect (Mkdir targetDir) (mkdirSync h targetDir) w2
                     else Inr w2)
                    (\<lambda>w3. effect (Cp sourceSchemaPath targetSchemaPath)
                       (cpSync h sourceSchemaPath targetSchemaPath) w3)))"

subsection \<open>Client generation\<close>

definition generatePrismaClient ::
  "'w host \<Rightarrow> serverless \<Rightarrow> string \<Rightarrow> 'w world \<Rightarrow> error + 'w world" where
  "generatePrismaClient h s cwd w =
     andThen (log ''Generating Prisma client...'' w) (\<lambda>w1.
       runCommand h (getPackageManager s) [''run'', ''prisma:generate''] cwd w1)"

subsection \<open>Engine Pruner\<close>

text \<open>The loop over the engines that \<^verbatim>\<open>globSync\<close> returned.\<close>

fun removeEngines :: "'w host \<Rightarrow> string \<Rightarrow> string list \<Rightarrow> 'w world \<Rightarrow> error + 'w world" where
  "removeEngines h cwd [] w = Inr w"
| "removeEngines h cwd (engine # engines) w =
     andThen (log (''  - '' @ engine) w) (\<lambda>w1.
     andThen (effect (Rm (joinPath [cwd, engine]) False)
                (rmSync h (joinPath [cwd, engine]) False) w1) (\<lambda>w2.
       removeEngines h cwd engines w2))"

definition deleteUnusedEngines ::
  "'w host \<Rightarrow> serverless \<Rightarrow> string \<Rightarrow> 'w world \<Rightarrow> error + 'w world" where
  "deleteUnusedEngines h s cwd w =
     andThen (globSync h (getPrismaEngines s) cwd (machine w)) (\<lambda>engines.
       let w1 = emit (Glob (getPrismaEngines s) cwd) w
       in if engines = [] then Inr w1
          else andThen (log ''Removing unused Prisma engines:'' w1) (\<lambda>w2.
                 removeEngines h cwd engines w2))"

subsection \<open>Orchestrator\<close>

text \<open>
  The default of both path settings is \<^verbatim>\<open>this.serverless.config.servicePath\<close>, read before
  \<^verbatim>\<open>get\<close> is called: without a \<^verbatim>\<open>config\<close> object the read throws.
\<close>

definition servicePath :: "serverless \<Rightarrow> error + json option" where
  "servicePath s =
     (case own (tree s) ''config'' of
        None \<Rightarrow> Inl TypeError
      | Some c \<Rightarrow> if c = JNull then Inl TypeError else Inr (own c ''servicePath''))"

definition getPrismaPath :: "serverless \<Rightarrow> error + json option" where
  "getPrismaPath s =
     andThen (servicePath s) (\<lambda>d.
       Inr (case get (tree s) ''service.custom.prisma.prismaPath'' of
              None \<Rightarrow> d | Some v \<Rightarrow> Some v))"

definition getWebpackOutputPath :: "serverless \<Rightarrow> error + json option" where
  "getWebpackOutputPath s =
     andThen (servicePath s) (\<lambda>d.
       Inr (case get (tree s) ''service.custom.webpack.webpackOutputPath'' of
              None \<Rightarrow> d | Some v \<Rightarrow> Some v))"

text \<open>The body of the loop of \<^verbatim>\<open>onBeforeWebpackPackage\<close>, for the unit in \<open>cwd\<close>.\<close>

definition processUnit ::
  "'w host \<Rightarrow> serverless \<Rightarrow> schemaAction \<Rightarrow> string \<Rightarrow> string \<Rightarrow> 'w world
     \<Rightarrow> error + 'w world" where
  "processUnit h s schema prismaDir cwd w =
     andThen (if truthy (getInstallDeps s) then installPrismaPackage h s cwd w else Inr w)
       (\<lambda>w1.
     andThen (managePrismaSchema h schema cwd prismaDir w1) (\<lambda>w2.
     andThen (generatePrismaClient h s cwd w2) (\<lambda>w3.
     andThen (deleteUnusedEngines h s cwd w3) (\<lambda>w4.
       if truthy (getInstallDeps s) then removePrismaPackage h s cwd w4 else Inr w4))))"

fun processUnits ::
  "'w host \<Rightarrow> serverless \<Rightarrow> schemaAction \<Rightarrow> string \<Rightarrow> string \<Rightarrow> string list \<Rightarrow> 'w world
     \<Rightarrow> error + 'w world" where
  "processUnits h s schema prismaDir webpackDir [] w = Inr w"
| "processUnits h s schema prismaDir webpackDir (funcName # rest) w =
     andThen (processUnit h s schema prismaDir (joinPath [webpackDir, funcName]) w)
       (\<lambda>w1. processUnits h s schema prismaDir webpackDir rest w1)"

definition schemaMode :: "serverless \<Rightarrow> schemaAction" where
  "schemaMode s = (if truthy (getUseSymlink s) then SymlinkSchema else CopySchema)"

definition onBeforeWebpackPackage ::
  "'w host \<Rightarrow> serverless \<Rightarrow> 'w world \<Rightarrow> error + 'w world" where
  "onBeforeWebpackPackage h s w =
     andThen (getPrismaPath s) (\<lambda>prismaRelativePath.
     andThen (asPath prismaRelativePath) (\<lambda>prismaPath.
     andThen (getWebpackOutputPath s) (\<lambda>outputPath.
     andThen (asPath outputPath) (\<lambda>out.
     andThen (getFunctionNames s) (\<lambda>names.
       processUnits h s (schemaMode s) (joinPath [prismaPath, ''prisma''])
         (joinPath [out, ''.webpack'']) names w)))))"

section \<open>A machine to run the plugin on\<close>

text \<open>
  An in-memory file system under absolute, normalized paths: regular files, directories
  and links. As in Node, a call on a path whose directory is missing fails, creating what
  exists fails, and a forced removal of what is missing does nothing. A link is followed
  one step by \<open>existsSync\<close> and by no other call. External commands leave the disk as it
  is, and \<open>jsonParse\<close> knows the documents of the table \<open>docs\<close>.
\<close>

datatype node = File string | Dir | Link string

type_synonym disk = "(string \<times> node) list"

definition dirname :: "string \<Rightarrow> string" where
  "dirname p =
     (let segs = splitAt CHR ''/'' [] p
      in if length segs \<le> 2 then ''/'' else joinWith ''/'' (butlast segs))"

definition isDir :: "disk \<Rightarrow> string \<Rightarrow> bool" where
  "isDir d p = (p = ''/'' \<or> map_of d p = Some Dir)"

fun put :: "disk \<Rightarrow> string \<Rightarrow> node \<Rightarrow> disk" where
  "put [] p n = [(p, n)]"
| "put (e # es) p n = (if fst e = p then (p, n) # es else e # put es p n)"

definition memRead :: "string \<Rightarrow> disk \<Rightarrow> error + string" where
  "memRead p d =
     (case map_of d p of
        Some (File c) \<Rightarrow> Inr c
      | Some Dir \<Rightarrow> Inl (FsError EISDIR p)
      | _ \<Rightarrow> Inl (FsError ENOENT p))"

definition memWrite :: "string \<Rightarrow> string \<Rightarrow> disk \<Rightarrow> error + disk" where
  "memWrite p c d =
     (if map_of d p = Some Dir then Inl (FsError EISDIR p)
      else if \<not> isDir d (dirname p) then Inl (FsError ENOENT p)
      else Inr (put d p (File c)))"

definition memRm :: "string \<Rightarrow> bool \<Rightarrow> disk \<Rightarrow> error + disk" where
  "memRm p recursive d =
     (case map_of d p of
        None \<Rightarrow> Inr d
      | Some Dir \<Rightarrow>
          if recursive
          then Inr (filter (\<lambda>e. fst e \<noteq> p \<and> \<not> startsWith (fst e) (p @ ''/'')) d)
          else Inl (FsError EISDIR p)
      | Some n \<Rightarrow> Inr (filter (\<lambda>e. fst e \<noteq> p) d))"

definition memSymlink :: "string \<Rightarrow> string \<Rightarrow> disk \<Rightarrow> error + disk" where
  "memSymlink target p d =
     (if map_of d p \<noteq> None then Inl (FsError EEXIST p)
      else if \<not> isDir d (dirname p) then Inl (FsError ENOENT p)
      else Inr (put d p (Link target)))"

definition memCp :: "string \<Rightarrow> string \<Rightarrow> disk \<Rightarrow> error + disk" where
  "memCp src dst d =
     (case map_of d src of
        Some (File c) \<Rightarrow>
          if map_of d dst = Some Dir then Inl (FsError EISDIR dst)
          else if \<not> isDir d (dirname dst) then Inl (FsError ENOTDIR dst)
          else Inr (put d dst (File c))
      | Some Dir \<Rightarrow> Inl (FsError EISDIR src)
      | _ \<Rightarrow> Inl (FsError ENOENT src))"

definition memExists :: "string \<Rightarrow> disk \<Rightarrow> bool" where
  "memExists p d =
     (case map_of d p of
        None \<Rightarrow> False
      | Some (Link t) \<Rightarrow> map_of d (joinPath [dirname p, t]) \<noteq> None
      | Some n \<Rightarrow> True)"

definition memMkdir :: "string \<Rightarrow> disk \<Rightarrow> error + disk" where
  "memMkdir p d =
     (if map_of d p \<noteq> None then Inl (FsError EEXIST p)
      else if \<not> isDir d (dirname p) then Inl (FsError ENOENT p)
      else Inr (put d p Dir))"

definition memList :: "string \<Rightarrow> disk \<Rightarrow> error + string list" where
  "memList cwd d =
     Inr (map (\<lambda>e. drop (length cwd + 1) (fst e))
            (filter (\<lambda>e. startsWith (fst e) (cwd @ ''/'')
                      \<and> (case snd e of File c \<Rightarrow> True | _ \<Rightarrow> False)) d))"

text \<open>\<^verbatim>\<open>path.relative\<close> between two absolute, normalized paths.\<close>

fun dropCommon :: "string list \<Rightarrow> string list \<Rightarrow> string list \<times> string list" where
  "dropCommon (x # xs) (y # ys) = (if x = y then dropCommon xs ys else (x # xs, y # ys))"
| "dropCommon xs ys = (xs, ys)"

definition memRelative :: "string \<Rightarrow> string \<Rightarrow> string" where
  "memRelative fromPath toPath =
     (let segs = (\<lambda>p. filter (\<lambda>x. x \<noteq> []) (splitAt CHR ''/'' [] p));
          rest = dropCommon (segs fromPath) (segs toPath)
      in joinWith ''/'' (map (\<lambda>x. ''..'') (fst rest) @ snd rest))"

definition memHost :: "(string \<times> json) list \<Rightarrow> disk host" where
  "memHost docs =
     \<lparr>readFileSync = memRead,
      writeFileSync = memWrite,
      rmSync = memRm,
      symlinkSync = memSymlink,
      cpSync = memCp,
      existsSync = memExists,
      mkdirSync = memMkdir,
      listFiles = memList,
      execSync = (\<lambda>cmd cwd d. Inr d),
      jsonParse = (\<lambda>text. case map_of docs text of
                            None \<Rightarrow> Inl SyntaxError | Some v \<Rightarrow> Inr v),
      relative = memRelative\<rparr>"

text \<open>
  The same machine with a package manager that changes the disk. Installing puts the
  tool into the unit: its executable, holding the name of the package manager that
  installed it, and its package, holding the specifier it was installed by. Running the
  generation script fails unless the manifest has the script and the tool is installed,
  and leaves a client with engines for three platforms. Every other command changes
  nothing.
\<close>

definition installed :: "string \<Rightarrow> string \<Rightarrow> (string \<times> node) list" where
  "installed packager specifier =
     [(''node_modules'', Dir),
      (''node_modules/.bin'', Dir),
      (''node_modules/.bin/prisma'', File packager),
      (''node_modules/prisma'', Dir),
      (''node_modules/prisma/package.json'', File specifier)]"

definition generated :: "(string \<times> node) list" where
  "generated =
     [(''node_modules/.prisma'', Dir),
      (''node_modules/.prisma/client'', Dir),
      (''node_modules/.prisma/client/index.js'', File ''client''),
      (''node_modules/.prisma/client/libquery_engine-rhel-openssl-1.0.x.so.node'',
         File ''rhel''),
      (''node_modules/.prisma/client/libquery_engine-linux-arm64-openssl-1.0.x.so.node'',
         File ''arm64''),
      (''node_modules/.prisma/client/libquery_engine-debian-openssl-1.1.x.so.node'',
         File ''debian'')]"

definition unpack :: "string \<Rightarrow> (string \<times> node) list \<Rightarrow> disk \<Rightarrow> disk" where
  "unpack cwd files d = fold (\<lambda>e d1. put d1 (joinPath [cwd, fst e]) (snd e)) files d"

definition memExec :: "string \<Rightarrow> string \<Rightarrow> disk \<Rightarrow> error + disk" where
  \<open>memExec cmd cwd d =
     (let ws = splitAt CHR '' '' [] cmd
      in if take 2 (drop 1 ws) = [''install'', ''-D''] \<and> length ws = 4
         then Inr (unpack cwd (installed (ws ! 0) (ws ! 3)) d)
         else if drop 1 ws = [''run'', ''prisma:generate'']
         then (case memRead (joinPath [cwd, ''package.json'']) d of
                 Inl e \<Rightarrow> Inl e
               | Inr manifest \<Rightarrow>
                   if containsText manifest ''"prisma:generate"''
                      \<and> map_of d (joinPath [cwd, ''node_modules/.bin/prisma'']) \<noteq> None
                   then Inr (unpack cwd generated d)
                   else Inl (ExecError cmd))
         else Inr d)\<close>

definition toolHost :: "(string \<times> json) list \<Rightarrow> disk host" where
  "toolHost docs = (memHost docs)\<lparr>execSync := memExec\<rparr>"

section \<open>Notions of the properties\<close>

text \<open>
  The seven places where generated engines lie: a directory and the name every engine of
  one kind starts with.
\<close>

definition engineNames :: "string list" where
  "engineNames =
     [''node_modules/.prisma/client/libquery_engine'',
      ''node_modules/prisma/libquery_engine'',
      ''node_modules/@prisma/engines/libquery_engine'',
      ''node_modules/@prisma/engines/migration-engine'',
      ''node_modules/@prisma/engines/prisma-fmt'',
      ''node_modules/@prisma/engines/introspection-engine'',
      ''node_modules/@prisma/engines/schema-engine'']"

text \<open>The path \<open>f\<close> is \<open>g\<close> followed by more of the same file name (no further slash).\<close>

definition beginsWith :: "string \<Rightarrow> string \<Rightarrow> bool" where
  "beginsWith f g = (startsWith f g \<and> CHR ''/'' \<notin> set (drop (length g) f))"

definition isEngine :: "string \<Rightarrow> bool" where
  "isEngine f = list_ex (\<lambda>g. beginsWith f g) engineNames"

text \<open>An engine whose name goes on with a hyphen and the platform identifier \<open>p\<close>.\<close>

definition isTargetEngine :: "string \<Rightarrow> string \<Rightarrow> bool" where
  "isTargetEngine p f = list_ex (\<lambda>g. beginsWith f (g @ ''-'' @ p)) engineNames"

text \<open>What the pruner calls after its glob, given the engines it is going to delete.\<close>

definition prunerCalls :: "string \<Rightarrow> string list \<Rightarrow> event list" where
  "prunerCalls cwd doomed =
     (if doomed = [] then []
      else Log ''Removing unused Prisma engines:''
           # concat (map (\<lambda>e. [Log (''  - '' @ e), Rm (joinPath [cwd, e]) False]) doomed))"


text \<open>
  The entries of the \<^verbatim>\<open>scripts\<close> object of a manifest; none when the manifest has no
  \<^verbatim>\<open>scripts\<close> or has one that is no object.
\<close>

definition scriptEntries :: "(string \<times> json) list \<Rightarrow> (string \<times> json) list" where
  "scriptEntries kvs = (case map_of kvs ''scripts'' of Some (JObj sc) \<Rightarrow> sc | _ \<Rightarrow> [])"

text \<open>
  The manifest \<open>kvs\<close> with the generation script set: \<^verbatim>\<open>scripts\<close> keeps its place and its
  other entries, and is put last when the manifest had none.
\<close>

definition withGenerate :: "(string \<times> json) list \<Rightarrow> json" where
  "withGenerate kvs =
     JObj (assign kvs ''scripts''
       (JObj (assign (scriptEntries kvs) ''prisma:generate'' (JStr ''prisma generate''))))"

text \<open>The manifest \<open>kvs\<close> with the generation script deleted from its \<^verbatim>\<open>scripts\<close> object.\<close>

definition withoutGenerate :: "(string \<times> json) list \<Rightarrow> json" where
  "withoutGenerate kvs =
     (case map_of kvs ''scripts'' of
        Some (JObj sc) \<Rightarrow> JObj (assign kvs ''scripts'' (JObj (remove sc ''prisma:generate'')))
      | _ \<Rightarrow> JObj kvs)"

text \<open>What a rewrite is to write back for the parsed manifest \<open>kvs\<close>.\<close>

definition rewritten :: "scriptAction \<Rightarrow> (string \<times> json) list \<Rightarrow> json" where
  "rewritten action kvs =
     (case action of Add \<Rightarrow> withGenerate kvs | Remove \<Rightarrow> withoutGenerate kvs)"

subsection \<open>The steps of the specification\<close>

text \<open>
  The host call that a recorded call stands for, as a change of the machine. A read
  changes nothing but fails when the host's read fails; narration changes nothing.
\<close>

fun perform :: "'w host \<Rightarrow> event \<Rightarrow> 'w \<Rightarrow> error + 'w" where
  "perform h (Log msg) m = Inr m"
| "perform h (ReadFile p) m = andThen (readFileSync h p m) (\<lambda>contents. Inr m)"
| "perform h (WriteFile p c) m = writeFileSync h p c m"
| "perform h (Rm p recursive) m = rmSync h p recursive m"
| "perform h (Symlink target p) m = symlinkSync h target p m"
| "perform h (Cp src dst) m = cpSync h src dst m"
| "perform h (Exists p) m = Inr m"
| "perform h (Mkdir p) m = mkdirSync h p m"
| "perform h (Glob pats cwd) m = andThen (listFiles h cwd m) (\<lambda>found. Inr m)"
| "perform h (Exec cmd cwd) m = execSync h cmd cwd m"

text \<open>A list of calls made one after the other, each on the machine the one before left.\<close>

fun replay :: "'w host \<Rightarrow> event list \<Rightarrow> 'w \<Rightarrow> error + 'w" where
  "replay h [] m = Inr m"
| "replay h (ev # evs) m = andThen (perform h ev m) (\<lambda>m1. replay h evs m1)"

text \<open>
  The steps of the orchestrator as the specification words them, each as the list of
  calls it is to make when it starts on the machine \<open>m\<close>. The settings are read at their
  documented paths with their documented defaults.
\<close>

definition configuredPackager :: "serverless \<Rightarrow> string" where
  "configuredPackager s =
     joinElem (getOr (tree s) ''service.custom.webpack.packager'' (JStr ''npm''))"

definition configuredSpecifier :: "serverless \<Rightarrow> string" where
  "configuredSpecifier s =
     (let version = getOr (tree s) ''service.custom.prisma.version'' (JStr [])
      in if truthy version then ''prisma@'' @ joinElem version else ''prisma'')"

definition installDepsOn :: "serverless \<Rightarrow> bool" where
  "installDepsOn s = truthy (getOr (tree s) ''service.custom.prisma.installDeps'' (JBool True))"

definition symlinkOn :: "serverless \<Rightarrow> bool" where
  "symlinkOn s =
     truthy (getOr (tree s) ''service.custom.prisma.useSymLinkForPrisma'' (JBool False))"

text \<open>
  Install: narrate, read the manifest, write it back with the generation script set,
  run the package manager's install command with the dev-dependency flag.
\<close>

definition installSteps :: "'w host \<Rightarrow> serverless \<Rightarrow> string \<Rightarrow> 'w \<Rightarrow> error + event list" where
  "installSteps h s cwd m =
     andThen (readFileSync h (joinPath [cwd, ''package.json'']) m) (\<lambda>contents.
     andThen (jsonParse h contents) (\<lambda>parsed.
       Inr [Log ''Installing prisma devDependencies...'',
            ReadFile (joinPath [cwd, ''package.json'']),
            WriteFile (joinPath [cwd, ''package.json''])
              (stringify (lodashSet parsed ''scripts.prisma:generate'' (JStr ''prisma generate''))),
            Exec (configuredPackager s @ '' install -D '' @ configuredSpecifier s) cwd]))"

text \<open>
  Schema: with the symlink option one directory link, relative to the unit; else the
  copy of the schema file, after creating the schema directory when it is not there.
\<close>

definition schemaSteps ::
  "'w host \<Rightarrow> serverless \<Rightarrow> string \<Rightarrow> string \<Rightarrow> 'w \<Rightarrow> error + event list" where
  "schemaSteps h s prismaDir cwd m =
     (if symlinkOn s
      then Inr [Log ''Creating symlink for Prisma schema...'',
                Symlink (relative h cwd prismaDir) (joinPath [cwd, ''prisma''])]
      else Inr ([Log ''Copying Prisma schema...'', Exists (joinPath [cwd, ''prisma''])]
             @ (if existsSync h (joinPath [cwd, ''prisma'']) m then []
                else [Mkdir (joinPath [cwd, ''prisma''])])
             @ [Cp (joinPath [prismaDir, ''schema.prisma''])
                   (joinPath [joinPath [cwd, ''prisma''], ''schema.prisma''])]))"

text \<open>Generation: the manifest script, run through the package manager.\<close>

definition generateSteps :: "serverless \<Rightarrow> string \<Rightarrow> 'w \<Rightarrow> error + event list" where
  "generateSteps s cwd m =
     Inr [Log ''Generating Prisma client...'',
          Exec (configuredPackager s @ '' run prisma:generate'') cwd]"

text \<open>Pruning: the glob, and for every engine it selects a narration line and a removal.\<close>

definition pruneSteps :: "'w host \<Rightarrow> serverless \<Rightarrow> string \<Rightarrow> 'w \<Rightarrow> error + event list" where
  "pruneSteps h s cwd m =
     andThen (listFiles h cwd m) (\<lambda>found.
       Inr (Glob (getPrismaEngines s) cwd
            # prunerCalls cwd (filter (selected (getPrismaEngines s)) found)))"

text \<open>
  Removal: narrate, read the manifest, write it back with the generation script unset,
  run the package manager's remove command, force-delete the two leftover directories.
\<close>

definition removeSteps :: "'w host \<Rightarrow> serverless \<Rightarrow> string \<Rightarrow> 'w \<Rightarrow> error + event list" where
  "removeSteps h s cwd m =
     andThen (readFileSync h (joinPath [cwd, ''package.json'']) m) (\<lambda>contents.
     andThen (jsonParse h contents) (\<lambda>parsed.
       Inr [Log ''Removing prisma devDependencies...'',
            ReadFile (joinPath [cwd, ''package.json'']),
            WriteFile (joinPath [cwd, ''package.json''])
              (stringify (lodashUnset parsed ''scripts.prisma:generate'')),
            Exec (configuredPackager s @ '' remove prisma'') cwd,
            Rm (joinPath [cwd, ''node_modules'', ''.bin/prisma'']) True,
            Rm (joinPath [cwd, ''node_modules'', ''prisma'']) True]))"

text \<open>
  Two steps in a row: the calls of the first, made on the machine, and then the calls the
  second is to make on the machine the first has left.
\<close>

definition followedBy ::
  "'w host \<Rightarrow> ('w \<Rightarrow> error + event list) \<Rightarrow> ('w \<Rightarrow> error + event list)
     \<Rightarrow> 'w \<Rightarrow> error + event list" where
  "followedBy h first second m =
     andThen (first m) (\<lambda>evs1.
     andThen (replay h evs1 m) (\<lambda>m1.
     andThen (second m1) (\<lambda>evs2. Inr (evs1 @ evs2))))"

definition noSteps :: "'w \<Rightarrow> error + event list" where
  "noSteps m = Inr []"

text \<open>
  One unit: install (with install-deps), schema, generation, pruning, removal (with
  install-deps), in this order.
\<close>

definition unitSteps ::
  "'w host \<Rightarrow> serverless \<Rightarrow> string \<Rightarrow> string \<Rightarrow> 'w \<Rightarrow> error + event list" where
  "unitSteps h s prismaDir cwd =
     followedBy h (if installDepsOn s then installSteps h s cwd else noSteps)
    (followedBy h (schemaSteps h s prismaDir cwd)
    (followedBy h (generateSteps s cwd)
    (followedBy h (pruneSteps h s cwd)
                  (if installDepsOn s then removeSteps h s cwd else noSteps))))"

text \<open>All units: one unit to its end, then the units after it.\<close>

fun runSteps ::
  "'w host \<Rightarrow> serverless \<Rightarrow> string \<Rightarrow> string \<Rightarrow> string list \<Rightarrow> 'w \<Rightarrow> error + event list" where
  "runSteps h s prismaDir webpackDir [] m = Inr []"
| "runSteps h s prismaDir webpackDir (funcName # rest) m =
     followedBy h (unitSteps h s prismaDir (joinPath [webpackDir, funcName]))
       (runSteps h s prismaDir webpackDir rest) m"

section \<open>Concrete inputs\<close>

definition nl :: string where
  "nl = [CHR 0x0A]"

text \<open>
  A service packaged per function whose provider names no runtime, with five functions
  registered: the settings and the function definitions are those that the test
  \<^verbatim>\<open>getNodeFunctions should exclude ignored functions & functions that use docker image\<close>
  of \<^verbatim>\<open>tests/index.test.ts\<close> writes into its service object. (The test's own mock of
  \<^verbatim>\<open>getAllFunctions\<close> lists \<^verbatim>\<open>fn1\<close> and \<^verbatim>\<open>fn2\<close> only, so the test itself never asks
  about the other three.)
\<close>

definition testService :: serverless where
  "testService =
     \<lparr>tree = JObj
        [(''service'', JObj
            [(''custom'', JObj
                [(''webpack'', JObj []),
                 (''prisma'', JObj
                    [(''ignoredFunctions'', JArr [JStr ''fn2'']),
                     (''ignoreFunctions'', JArr [JStr ''fn3''])])]),
             (''provider'', JObj []),
             (''package'', JObj [(''individually'', JBool True)])]),
         (''config'', JObj [(''servicePath'', JStr ''/service/path'')])],
      registry =
        [(''fn1'', JObj []),
         (''fn2'', JObj []),
         (''fn3'', JObj []),
         (''fn4'', JObj [(''runtime'', JStr ''python3.9'')]),
         (''fn5'', JObj [(''image'', JStr ''dummy'')])]\<rparr>"

text \<open>The service of the test \<^verbatim>\<open>should add prisma generate script with --data-proxy\<close>.\<close>

definition dataProxyService :: serverless where
  "dataProxyService =
     \<lparr>tree = JObj
        [(''service'', JObj
            [(''custom'', JObj
                [(''webpack'', JObj []),
                 (''prisma'', JObj
                    [(''ignoredFunctions'', JArr [JStr ''fn2'']),
                     (''dataProxy'', JBool True)])]),
             (''provider'', JObj [])]),
         (''config'', JObj [(''servicePath'', JStr ''/service/path'')])],
      registry = [(''fn1'', JObj []), (''fn2'', JObj [])]\<rparr>"

text \<open>The manifest the tests read, \<^verbatim>\<open>JSON.stringify({ scripts: {} })\<close>, and what it parses to.\<close>

definition emptyScripts :: "(string \<times> json) list" where
  \<open>emptyScripts = [(''{"scripts":{}}'', JObj [(''scripts'', JObj [])])]\<close>

text \<open>The directories of the tests, \<^verbatim>\<open>/fake-dir\<close> for the unit and \<^verbatim>\<open>/prisma-dir\<close> for the schema.\<close>

definition fakeDisk :: disk where
  \<open>fakeDisk =
     [(''/fake-dir'', Dir),
      (''/fake-dir/package.json'', File ''{"scripts":{}}''),
      (''/prisma-dir'', Dir),
      (''/prisma-dir/schema.prisma'', File ''datasource db {}'')]\<close>

text \<open>The same service with a pinned tool version, and with an architecture that has no mapping.\<close>

definition versionService :: serverless where
  "versionService =
     \<lparr>tree = JObj
        [(''service'', JObj
            [(''custom'', JObj
                [(''webpack'', JObj []),
                 (''prisma'', JObj [(''version'', JStr ''5.0.0'')])]),
             (''provider'', JObj [])]),
         (''config'', JObj [(''servicePath'', JStr ''/service/path'')])],
      registry = [(''fn1'', JObj []), (''fn2'', JObj [])]\<rparr>"

definition amd64Service :: serverless where
  "amd64Service =
     \<lparr>tree = JObj
        [(''service'', JObj
            [(''custom'', JObj [(''webpack'', JObj []), (''prisma'', JObj [])]),
             (''provider'', JObj [(''architecture'', JStr ''amd64'')])]),
         (''config'', JObj [(''servicePath'', JStr ''/service/path'')])],
      registry = [(''fn1'', JObj []), (''fn2'', JObj [])]\<rparr>"

text \<open>A unit directory after client generation, with engines for three platforms.\<close>

definition engineDisk :: disk where
  "engineDisk =
     [(''/fake-dir'', Dir),
      (''/fake-dir/node_modules'', Dir),
      (''/fake-dir/node_modules/prisma'', Dir),
      (''/fake-dir/node_modules/prisma/libquery_engine-rhel-openssl-1.0.x.so.node'',
         File ''rhel''),
      (''/fake-dir/node_modules/prisma/libquery_engine-linux-arm64-openssl-1.0.x.so.node'',
         File ''arm64''),
      (''/fake-dir/node_modules/prisma/libquery_engine-debian-openssl-1.1.x.so.node'',
         File ''debian''),
      (''/fake-dir/node_modules/prisma/build'', Dir),
      (''/fake-dir/node_modules/prisma/build/index.js'', File ''js'')]"

text \<open>The same directory with one more engine, built for a platform of the user's own naming.\<close>

definition customEngineDisk :: disk where
  "customEngineDisk =
     engineDisk
     @ [(''/fake-dir/node_modules/prisma/libquery_engine-custom-rhel.so.node'', File ''custom'')]"

text \<open>Manifests for the rewrite: a full one, one without scripts, and two odd ones.\<close>

definition fullManifest :: json where
  "fullManifest =
     JObj [(''name'', JStr ''fn1''),
           (''scripts'', JObj [(''build'', JStr ''tsc''),
                               (''prisma:generate'', JStr ''prisma generate'')]),
           (''version'', JStr ''1.0.0'')]"

definition fullDocs :: "(string \<times> json) list" where
  \<open>fullDocs =
     [(''{"name":"fn1","scripts":{"build":"tsc","prisma:generate":"prisma generate"},"version":"1.0.0"}'',
       fullManifest)]\<close>

definition fullDisk :: disk where
  \<open>fullDisk =
     [(''/fake-dir'', Dir),
      (''/fake-dir/package.json'',
         File ''{"name":"fn1","scripts":{"build":"tsc","prisma:generate":"prisma generate"},"version":"1.0.0"}'')]\<close>

definition dottedManifest :: json where
  "dottedManifest =
     JObj [(''scripts.prisma:generate'', JStr ''mine''), (''scripts'', JObj [])]"

definition dottedDocs :: "(string \<times> json) list" where
  \<open>dottedDocs = [(''{"scripts.prisma:generate":"mine","scripts":{}}'', dottedManifest)]\<close>

definition dottedDisk :: disk where
  \<open>dottedDisk =
     [(''/fake-dir'', Dir),
      (''/fake-dir/package.json'', File ''{"scripts.prisma:generate":"mine","scripts":{}}'')]\<close>




text \<open>A manifest whose \<^verbatim>\<open>scripts\<close> is an array.\<close>

definition arrayDocs :: "(string \<times> json) list" where
  \<open>arrayDocs = [(''{"scripts":[]}'', JObj [(''scripts'', JArr [])])]\<close>

definition arrayDisk :: disk where
  \<open>arrayDisk = [(''/fake-dir'', Dir), (''/fake-dir/package.json'', File ''{"scripts":[]}'')]\<close>

text \<open>
  The end-to-end scenario: three functions packaged one by one, \<^verbatim>\<open>fn2\<close> ignored by name,
  the package manager \<^verbatim>\<open>pnpm\<close>, the tool pinned to \<^verbatim>\<open>5.0.0\<close>, the architecture
  \<^verbatim>\<open>arm64\<close>; the manifests the run reads; the disk before the run.
\<close>

definition pipelineService :: serverless where
  "pipelineService =
     \<lparr>tree = JObj
        [(''service'', JObj
            [(''custom'', JObj
                [(''webpack'', JObj [(''packager'', JStr ''pnpm'')]),
                 (''prisma'', JObj
                    [(''ignoreFunctions'', JArr [JStr ''fn2'']),
                     (''version'', JStr ''5.0.0'')])]),
             (''provider'', JObj [(''architecture'', JStr ''arm64'')]),
             (''package'', JObj [(''individually'', JBool True)])]),
         (''config'', JObj [(''servicePath'', JStr ''/service/path'')])],
      registry = [(''fn1'', JObj []), (''fn2'', JObj []), (''fn3'', JObj [])]\<rparr>"

definition pipelineDocs :: "(string \<times> json) list" where
  \<open>pipelineDocs =
     [(''{}'', JObj []),
      (''{'' @ nl @ ''  "scripts": {'' @ nl @ ''    "prisma:generate": "prisma generate"'' @ nl
         @ ''  }'' @ nl @ ''}'',
       JObj [(''scripts'', JObj [(''prisma:generate'', JStr ''prisma generate'')])]),
      (''{"scripts":{"build":"tsc"}}'', JObj [(''scripts'', JObj [(''build'', JStr ''tsc'')])]),
      (''{'' @ nl @ ''  "scripts": {'' @ nl @ ''    "build": "tsc",'' @ nl
         @ ''    "prisma:generate": "prisma generate"'' @ nl @ ''  }'' @ nl @ ''}'',
       JObj [(''scripts'', JObj [(''build'', JStr ''tsc''),
                                 (''prisma:generate'', JStr ''prisma generate'')])])]\<close>

definition pipelineDisk :: disk where
  \<open>pipelineDisk =
     [(''/service'', Dir),
      (''/service/path'', Dir),
      (''/service/path/prisma'', Dir),
      (''/service/path/prisma/schema.prisma'', File ''datasource db {}''),
      (''/service/path/.webpack'', Dir),
      (''/service/path/.webpack/fn1'', Dir),
      (''/service/path/.webpack/fn1/package.json'', File ''{}''),
      (''/service/path/.webpack/fn2'', Dir),
      (''/service/path/.webpack/fn2/package.json'', File ''{}''),
      (''/service/path/.webpack/fn3'', Dir),
      (''/service/path/.webpack/fn3/package.json'', File ''{"scripts":{"build":"tsc"}}'')]\<close>

text \<open>
  The machine after the install step on the unit \<^verbatim>\<open>fn3\<close> of this disk, and the machine and
  the calls after the whole run.
\<close>

definition installedDisk :: disk where
  \<open>installedDisk =
     [(''/service'', Dir),
      (''/service/path'', Dir),
      (''/service/path/prisma'', Dir),
      (''/service/path/prisma/schema.prisma'', File ''datasource db {}''),
      (''/service/path/.webpack'', Dir),
      (''/service/path/.webpack/fn1'', Dir),
      (''/service/path/.webpack/fn1/package.json'', File ''{}''),
      (''/service/path/.webpack/fn2'', Dir),
      (''/service/path/.webpack/fn2/package.json'', File ''{}''),
      (''/service/path/.webpack/fn3'', Dir),
      (''/service/path/.webpack/fn3/package.json'',
         File (''{'' @ nl @ ''  "scripts": {'' @ nl @ ''    "build": "tsc",'' @ nl
              @ ''    "prisma:generate": "prisma generate"'' @ nl @ ''  }'' @ nl @ ''}'')),
      (''/service/path/.webpack/fn3/node_modules'', Dir),
      (''/service/path/.webpack/fn3/node_modules/.bin'', Dir),
      (''/service/path/.webpack/fn3/node_modules/.bin/prisma'', File ''pnpm''),
      (''/service/path/.webpack/fn3/node_modules/prisma'', Dir),
      (''/service/path/.webpack/fn3/node_modules/prisma/package.json'', File ''prisma@5.0.0'')]\<close>

definition pipelineDone :: "disk world" where
  \<open>pipelineDone =
     \<lparr>machine =
        [(''/service'', Dir),
         (''/service/path'', Dir),
         (''/service/path/prisma'', Dir),
         (''/service/path/prisma/schema.prisma'', File ''datasource db {}''),
         (''/service/path/.webpack'', Dir),
         (''/service/path/.webpack/fn1'', Dir),
         (''/service/path/.webpack/fn1/package.json'',
            File (''{'' @ nl @ ''  "scripts": {}'' @ nl @ ''}'')),
         (''/service/path/.webpack/fn2'', Dir),
         (''/service/path/.webpack/fn2/package.json'', File ''{}''),
         (''/service/path/.webpack/fn3'', Dir),
         (''/service/path/.webpack/fn3/package.json'',
            File (''{'' @ nl @ ''  "scripts": {'' @ nl @ ''    "build": "tsc"'' @ nl @ ''  }''
              @ nl @ ''}'')),
         (''/service/path/.webpack/fn1/node_modules'', Dir),
         (''/service/path/.webpack/fn1/node_modules/.bin'', Dir),
         (''/service/path/.webpack/fn1/prisma'', Dir),
         (''/service/path/.webpack/fn1/prisma/schema.prisma'', File ''datasource db {}''),
         (''/service/path/.webpack/fn1/node_modules/.prisma'', Dir),
         (''/service/path/.webpack/fn1/node_modules/.prisma/client'', Dir),
         (''/service/path/.webpack/fn1/node_modules/.prisma/client/index.js'', File ''client''),
         (''/service/path/.webpack/fn1/node_modules/.prisma/client/libquery_engine-linux-arm64-openssl-1.0.x.so.node'',
            File ''arm64''),
         (''/service/path/.webpack/fn3/node_modules'', Dir),
         (''/service/path/.webpack/fn3/node_modules/.bin'', Dir),
         (''/service/path/.webpack/fn3/prisma'', Dir),
         (''/service/path/.webpack/fn3/prisma/schema.prisma'', File ''datasource db {}''),
         (''/service/path/.webpack/fn3/node_modules/.prisma'', Dir),
         (''/service/path/.webpack/fn3/node_modules/.prisma/client'', Dir),
         (''/service/path/.webpack/fn3/node_modules/.prisma/client/index.js'', File ''client''),
         (''/service/path/.webpack/fn3/node_modules/.prisma/client/libquery_engine-linux-arm64-openssl-1.0.x.so.node'',
            File ''arm64'')],
      calls =
        [Log ''Installing prisma devDependencies...'',
         ReadFile ''/service/path/.webpack/fn1/package.json'',
         WriteFile ''/service/path/.webpack/fn1/package.json''
           (''{'' @ nl @ ''  "scripts": {'' @ nl @ ''    "prisma:generate": "prisma generate"''
              @ nl @ ''  }'' @ nl @ ''}''),
         Exec ''pnpm install -D prisma@5.0.0'' ''/service/path/.webpack/fn1'',
         Log ''Copying Prisma schema...'',
         Exists ''/service/path/.webpack/fn1/prisma'',
         Mkdir ''/service/path/.webpack/fn1/prisma'',
         Cp ''/service/path/prisma/schema.prisma''
            ''/service/path/.webpack/fn1/prisma/schema.prisma'',
         Log ''Generating Prisma client...'',
         Exec ''pnpm run prisma:generate'' ''/service/path/.webpack/fn1'',
         Glob (getPrismaEngines pipelineService) ''/service/path/.webpack/fn1'',
         Log ''Removing unused Prisma engines:'',
         Log ''  - node_modules/.prisma/client/libquery_engine-rhel-openssl-1.0.x.so.node'',
         Rm ''/service/path/.webpack/fn1/node_modules/.prisma/client/libquery_engine-rhel-openssl-1.0.x.so.node''
            False,
         Log ''  - node_modules/.prisma/client/libquery_engine-debian-openssl-1.1.x.so.node'',
         Rm ''/service/path/.webpack/fn1/node_modules/.prisma/client/libquery_engine-debian-openssl-1.1.x.so.node''
            False,
         Log ''Removing prisma devDependencies...'',
         ReadFile ''/service/path/.webpack/fn1/package.json'',
         WriteFile ''/service/path/.webpack/fn1/package.json''
           (''{'' @ nl @ ''  "scripts": {}'' @ nl @ ''}''),
         Exec ''pnpm remove prisma'' ''/service/path/.webpack/fn1'',
         Rm ''/service/path/.webpack/fn1/node_modules/.bin/prisma'' True,
         Rm ''/service/path/.webpack/fn1/node_modules/prisma'' True,
         Log ''Installing prisma devDependencies...'',
         ReadFile ''/service/path/.webpack/fn3/package.json'',
         WriteFile ''/service/path/.webpack/fn3/package.json''
           (''{'' @ nl @ ''  "scripts": {'' @ nl @ ''    "build": "tsc",'' @ nl
              @ ''    "prisma:generate": "prisma generate"'' @ nl @ ''  }'' @ nl @ ''}''),
         Exec ''pnpm install -D prisma@5.0.0'' ''/service/path/.webpack/fn3'',
         Log ''Copying Prisma schema...'',
         Exists ''/service/path/.webpack/fn3/prisma'',
         Mkdir ''/service/path/.webpack/fn3/prisma'',
         Cp ''/service/path/prisma/schema.prisma''
            ''/service/path/.webpack/fn3/prisma/schema.prisma'',
         Log ''Generating Prisma client...'',
         Exec ''pnpm run prisma:generate'' ''/service/path/.webpack/fn3'',
         Glob (getPrismaEngines pipelineService) ''/service/path/.webpack/fn3'',
         Log ''Removing unused Prisma engines:'',
         Log ''  - node_modules/.prisma/client/libquery_engine-rhel-openssl-1.0.x.so.node'',
         Rm ''/service/path/.webpack/fn3/node_modules/.prisma/client/libquery_engine-rhel-openssl-1.0.x.so.node''
            False,
         Log ''  - node_modules/.prisma/client/libquery_engine-debian-openssl-1.1.x.so.node'',
         Rm ''/service/path/.webpack/fn3/node_modules/.prisma/client/libquery_engine-debian-openssl-1.1.x.so.node''
            False,
         Log ''Removing prisma devDependencies...'',
         ReadFile ''/service/path/.webpack/fn3/package.json'',
         WriteFile ''/service/path/.webpack/fn3/package.json''
           (''{'' @ nl @ ''  "scripts": {'' @ nl @ ''    "build": "tsc"'' @ nl @ ''  }''
              @ nl @ ''}''),
         Exec ''pnpm remove prisma'' ''/service/path/.webpack/fn3'',
         Rm ''/service/path/.webpack/fn3/node_modules/.bin/prisma'' True,
         Rm ''/service/path/.webpack/fn3/node_modules/prisma'' True]\<rparr>\<close>

section \<open>Properties\<close>

subsection \<open>Exceptions and calls\<close>

lemma andThen_Inr: "andThen m f = Inr y \<longleftrightarrow> (\<exists>x. m = Inr x \<and> f x = Inr y)"
  by (cases m) (simp_all add: andThen_def)

lemma filterE_kept:
  "filterE p xs = Inr ys \<Longrightarrow> x \<in> set ys \<Longrightarrow> p x = Inr True"
proof (induction xs arbitrary: ys)
  case Nil
  then show ?case by simp
next
  case (Cons a xs)
  from Cons.prems(1) obtain keep rest where
    a: "p a = Inr keep" and r: "filterE p xs = Inr rest"
    and ys: "ys = (if keep then a # rest else rest)"
    by (auto simp: andThen_Inr)
  show ?case
  proof (cases "x \<in> set rest")
    case True
    with Cons.IH r show ?thesis by blast
  next
    case False
    with Cons.prems(2) ys have "keep" "x = a" by (auto split: if_splits)
    with a show ?thesis by simp
  qed
qed

lemma effect_Inr:
  "effect ev f w = Inr w' \<longleftrightarrow>
     (\<exists>m. f (machine w) = Inr m \<and> w' = \<lparr>machine = m, calls = calls w @ [ev]\<rparr>)"
  by (auto simp: effect_def split: sum.splits)

lemma log_Inr: "log msg w = Inr w' \<longleftrightarrow> w' = emit (Log msg) w"
  by (auto simp: log_def)

lemma calls_emit: "calls (emit ev w) = calls w @ [ev]"
  by (simp add: emit_def)

lemma machine_emit: "machine (emit ev w) = machine w"
  by (simp add: emit_def)

lemma runCommand_steps:
  assumes "runCommand h command args cwd w = Inr w'"
  shows "execSync h (joinElem command @ '' '' @ joinWith '' '' args) cwd (machine w)
           = Inr (machine w')"
    and "calls w' = calls w @ [Exec (joinElem command @ '' '' @ joinWith '' '' args) cwd]"
  using assms by (auto simp: runCommand_def Let_def effect_Inr)

lemma replay_append:
  "replay h (evs1 @ evs2) m = andThen (replay h evs1 m) (\<lambda>m1. replay h evs2 m1)"
  by (induction evs1 arbitrary: m) (auto simp: andThen_def split: sum.splits)

subsection \<open>Function Selector\<close>

text \<open>
  C8. With per-function packaging, a function whose definition has an \<^verbatim>\<open>image\<close> field is
  not among the selected names, whatever the field holds and whatever the rest of the
  definition (its runtime included) says.
\<close>

theorem image_function_excluded:
  assumes "truthy (getOr (tree s) ''service.package.individually'' (JBool False))"
    and "getFunctionNames s = Inr names"
    and "getFunction s funcName = Inr func"
    and "own func ''image'' = Some ref"
  shows "funcName \<notin> set names"
proof
  assume "funcName \<in> set names"
  moreover from assms(1,2) have "filterE (keepFunction s) (getAllFunctions s) = Inr names"
    by (simp add: getFunctionNames_def getNodeFunctions_def)
  ultimately have "keepFunction s funcName = Inr True"
    by (rule filterE_kept[rotated])
  moreover from assms(3,4) have "keepFunction s funcName \<noteq> Inr True"
    by (auto simp: keepFunction_def andThen_def isFunctionImage_def)
  ultimately show False by simp
qed

theorem image_function_excluded_witness:
  "truthy (getOr (tree testService) ''service.package.individually'' (JBool False))
   \<and> getFunctionNames testService = Inr [''fn1'', ''fn2'', ''fn4'']
   \<and> getFunction testService ''fn5'' = Inr (JObj [(''image'', JStr ''dummy'')])
   \<and> own (JObj [(''image'', JStr ''dummy'')]) ''image'' = Some (JStr ''dummy'')
   \<and> ''fn5'' \<notin> set [''fn1'', ''fn2'', ''fn4'']"
proof -
  have a: "truthy (getOr (tree testService) ''service.package.individually'' (JBool False))"
    by code_simp
  have b: "getFunctionNames testService = Inr [''fn1'', ''fn2'', ''fn4'']"
    by code_simp
  have c: "getFunction testService ''fn5'' = Inr (JObj [(''image'', JStr ''dummy'')])"
    by code_simp
  have d: "own (JObj [(''image'', JStr ''dummy'')]) ''image'' = Some (JStr ''dummy'')"
    by simp
  from image_function_excluded[OF a b c d] a b c d show ?thesis by blast
qed

text \<open>
  C4. The runtime test reads \<^verbatim>\<open>handler.runtime\<close>, a path no function definition has, and
  accepts a function as soon as the provider's runtime (or the fallback \<^verbatim>\<open>node\<close>) matches.
  On a service whose provider names no runtime and which registers five functions, the
  function \<^verbatim>\<open>fn4\<close> with the runtime \<^verbatim>\<open>python3.9\<close> of its own is selected.
\<close>

theorem python_function_selected:
  "getNodeFunctions testService = Inr [''fn1'', ''fn2'', ''fn4'']"
  by code_simp

subsection \<open>Package-Script Manager\<close>

lemma managePackageScripts_steps:
  assumes "managePackageScripts h action cwd w = Inr w'"
  shows "\<exists>contents parsed.
           readFileSync h (joinPath [cwd, ''package.json'']) (machine w) = Inr contents
         \<and> jsonParse h contents = Inr parsed
         \<and> writeFileSync h (joinPath [cwd, ''package.json''])
              (stringify (case action of
                   Add \<Rightarrow> lodashSet parsed generateKey (JStr ''prisma generate'')
                 | Remove \<Rightarrow> lodashUnset parsed generateKey)) (machine w) = Inr (machine w')
         \<and> calls w' = calls w @
             [ReadFile (joinPath [cwd, ''package.json'']),
              WriteFile (joinPath [cwd, ''package.json''])
                (stringify (case action of
                   Add \<Rightarrow> lodashSet parsed generateKey (JStr ''prisma generate'')
                 | Remove \<Rightarrow> lodashUnset parsed generateKey))]"
  using assms
  by (auto simp: managePackageScripts_def Let_def andThen_Inr effect_Inr calls_emit machine_emit)

lemma map_of_assign: "map_of (assign kvs k v) k' = (if k' = k then Some v else map_of kvs k')"
  by (induction kvs) auto

lemma keys_assign:
  "map fst (assign kvs k v) = (if map_of kvs k = None then map fst kvs @ [k] else map fst kvs)"
  by (induction kvs) auto

lemma assign_same: "map_of kvs k = Some v \<Longrightarrow> assign kvs k v = kvs"
  by (induction kvs) (auto split: if_splits)


lemma map_of_remove: "map_of (remove kvs k) k' = (if k' = k then None else map_of kvs k')"
  by (induction kvs) (auto simp: remove_def)

lemma generatePath:
  "map_of kvs generateKey = None \<Longrightarrow>
     castPath generateKey (JObj kvs) = [''scripts'', ''prisma:generate'']"
  by (simp add: castPath_def generateKey_def)

lemma set_generate:
  assumes "map_of kvs generateKey = None"
  shows "lodashSet (JObj kvs) generateKey v =
     JObj (assign kvs ''scripts''
       (case map_of kvs ''scripts'' of
          Some (JObj sc) \<Rightarrow> JObj (assign sc ''prisma:generate'' v)
        | Some (JArr xs) \<Rightarrow> JArr xs
        | _ \<Rightarrow> JObj [(''prisma:generate'', v)]))"
  using assms
  by (auto simp: lodashSet_def generatePath split: option.splits json.splits)

lemma unset_generate:
  assumes "map_of kvs generateKey = None"
  shows "lodashUnset (JObj kvs) generateKey =
     (case map_of kvs ''scripts'' of
        Some (JObj sc) \<Rightarrow> JObj (assign kvs ''scripts'' (JObj (remove sc ''prisma:generate'')))
      | _ \<Rightarrow> JObj kvs)"
  using assms
  by (auto simp: lodashUnset_def generatePath assign_same split: option.splits json.splits)


text \<open>
  C2. The script written by the install step does not depend on the service: with
  \<^verbatim>\<open>custom.prisma.dataProxy\<close> set, the manifest \<^verbatim>\<open>{"scripts":{}}\<close> is rewritten with the
  command \<^verbatim>\<open>prisma generate\<close>, without the flag \<^verbatim>\<open>--data-proxy\<close> that the repository's test
  expects.
\<close>

theorem data_proxy_flag_missing:
  \<open>getOr (tree dataProxyService) ''service.custom.prisma.dataProxy'' (JBool False) = JBool True
   \<and> installPrismaPackage (memHost emptyScripts) dataProxyService ''/fake-dir''
        \<lparr>machine = fakeDisk, calls = []\<rparr>
     = Inr \<lparr>machine =
        [(''/fake-dir'', Dir),
         (''/fake-dir/package.json'',
            File (''{'' @ nl @ ''  "scripts": {'' @ nl
              @ ''    "prisma:generate": "prisma generate"'' @ nl @ ''  }'' @ nl @ ''}'')),
         (''/prisma-dir'', Dir),
         (''/prisma-dir/schema.prisma'', File ''datasource db {}'')],
        calls =
          [Log ''Installing prisma devDependencies...'',
           ReadFile ''/fake-dir/package.json'',
           WriteFile ''/fake-dir/package.json''
             (''{'' @ nl @ ''  "scripts": {'' @ nl
              @ ''    "prisma:generate": "prisma generate"'' @ nl @ ''  }'' @ nl @ ''}''),
           Exec ''npm install -D prisma'' ''/fake-dir'']\<rparr>\<close>
  by code_simp

lemma filter_assign:
  "filter (\<lambda>e. fst e \<noteq> k) (assign kvs k v) = filter (\<lambda>e. fst e \<noteq> k) kvs"
  by (induction kvs) auto

lemma keys_remove: "map fst (remove kvs k) = filter (\<lambda>x. x \<noteq> k) (map fst kvs)"
  by (induction kvs) (auto simp: remove_def)

lemma set_is_withGenerate:
  assumes "map_of kvs generateKey = None"
    and "\<forall>xs. map_of kvs ''scripts'' \<noteq> Some (JArr xs)"
  shows "lodashSet (JObj kvs) generateKey (JStr ''prisma generate'') = withGenerate kvs"
  using assms
  by (auto simp: set_generate withGenerate_def scriptEntries_def
        split: option.splits json.splits)

lemma unset_is_withoutGenerate:
  assumes "map_of kvs generateKey = None"
  shows "lodashUnset (JObj kvs) generateKey = withoutGenerate kvs"
  using assms by (simp add: unset_generate withoutGenerate_def)

lemma rewritten_frame:
  assumes "map_of kvs ''scripts'' = None \<or> (\<exists>sc. map_of kvs ''scripts'' = Some (JObj sc))"
  shows "\<exists>kvs' sc'.
           rewritten action kvs = JObj kvs'
         \<and> filter (\<lambda>e. fst e \<noteq> ''scripts'') kvs' = filter (\<lambda>e. fst e \<noteq> ''scripts'') kvs
         \<and> map fst kvs'
             = (if action = Add \<and> map_of kvs ''scripts'' = None
                then map fst kvs @ [''scripts''] else map fst kvs)
         \<and> map_of kvs' ''scripts''
             = (if action = Remove \<and> map_of kvs ''scripts'' = None
                then None else Some (JObj sc'))
         \<and> filter (\<lambda>e. fst e \<noteq> ''prisma:generate'') sc'
             = filter (\<lambda>e. fst e \<noteq> ''prisma:generate'') (scriptEntries kvs)
         \<and> map fst sc'
             = (case action of
                  Add \<Rightarrow>
                    if map_of (scriptEntries kvs) ''prisma:generate'' = None
                    then map fst (scriptEntries kvs) @ [''prisma:generate'']
                    else map fst (scriptEntries kvs)
                | Remove \<Rightarrow>
                    filter (\<lambda>k. k \<noteq> ''prisma:generate'') (map fst (scriptEntries kvs)))
         \<and> map_of sc' ''prisma:generate''
             = (case action of Add \<Rightarrow> Some (JStr ''prisma generate'') | Remove \<Rightarrow> None)"
proof (cases action)
  case Add
  let ?sc = "assign (scriptEntries kvs) ''prisma:generate'' (JStr ''prisma generate'')"
  let ?kvs = "assign kvs ''scripts'' (JObj ?sc)"
  have "rewritten action kvs = JObj ?kvs"
    by (simp add: Add rewritten_def withGenerate_def)
  moreover have "filter (\<lambda>e. fst e \<noteq> ''scripts'') ?kvs = filter (\<lambda>e. fst e \<noteq> ''scripts'') kvs"
    by (rule filter_assign)
  moreover have "map fst ?kvs
      = (if map_of kvs ''scripts'' = None then map fst kvs @ [''scripts''] else map fst kvs)"
    by (rule keys_assign)
  moreover have "map_of ?kvs ''scripts'' = Some (JObj ?sc)"
    by (simp add: map_of_assign)
  moreover have "filter (\<lambda>e. fst e \<noteq> ''prisma:generate'') ?sc
      = filter (\<lambda>e. fst e \<noteq> ''prisma:generate'') (scriptEntries kvs)"
    by (rule filter_assign)
  moreover have "map fst ?sc
      = (if map_of (scriptEntries kvs) ''prisma:generate'' = None
         then map fst (scriptEntries kvs) @ [''prisma:generate'']
         else map fst (scriptEntries kvs))"
    by (rule keys_assign)
  moreover have "map_of ?sc ''prisma:generate'' = Some (JStr ''prisma generate'')"
    by (simp add: map_of_assign)
  ultimately show ?thesis
    using Add by (intro exI[of _ ?kvs] exI[of _ ?sc]) simp
next
  case Remove
  from assms show ?thesis
  proof
    assume none: "map_of kvs ''scripts'' = None"
    then have "rewritten action kvs = JObj kvs" "scriptEntries kvs = []"
      by (simp_all add: Remove rewritten_def withoutGenerate_def scriptEntries_def)
    with none Remove show ?thesis
      by (intro exI[of _ kvs] exI[of _ "[]"]) simp
  next
    assume "\<exists>sc. map_of kvs ''scripts'' = Some (JObj sc)"
    then obtain sc where sc: "map_of kvs ''scripts'' = Some (JObj sc)" ..
    let ?sc = "remove sc ''prisma:generate''"
    let ?kvs = "assign kvs ''scripts'' (JObj ?sc)"
    have e: "scriptEntries kvs = sc" by (simp add: scriptEntries_def sc)
    have "rewritten action kvs = JObj ?kvs"
      by (simp add: Remove rewritten_def withoutGenerate_def sc)
    moreover have
      "filter (\<lambda>e. fst e \<noteq> ''scripts'') ?kvs = filter (\<lambda>e. fst e \<noteq> ''scripts'') kvs"
      by (rule filter_assign)
    moreover have "map fst ?kvs = map fst kvs"
      by (simp add: keys_assign sc)
    moreover have "map_of ?kvs ''scripts'' = Some (JObj ?sc)"
      by (simp add: map_of_assign)
    moreover have "filter (\<lambda>e. fst e \<noteq> ''prisma:generate'') ?sc
        = filter (\<lambda>e. fst e \<noteq> ''prisma:generate'') sc"
      by (simp add: remove_def)
    moreover have "map fst ?sc = filter (\<lambda>k. k \<noteq> ''prisma:generate'') (map fst sc)"
      by (rule keys_remove)
    moreover have "map_of ?sc ''prisma:generate'' = None"
      by (simp add: map_of_remove)
    ultimately show ?thesis
      using Remove sc e by (intro exI[of _ ?kvs] exI[of _ ?sc]) simp
  qed
qed

text \<open>
  C6 (as amended). Take a manifest that \<^verbatim>\<open>JSON.parse\<close> turns into an object \<open>kvs\<close> with no
  property named by the whole path \<^verbatim>\<open>scripts.prisma:generate\<close> and whose \<^verbatim>\<open>scripts\<close>, when
  present, is an object. A completed rewrite has read the manifest and handed to the
  host's write, on the machine as it was, the two-space serialization of exactly
  \<open>rewritten action kvs\<close>; the machine after the rewrite is what this write left. Relative
  to the parsed object, in \<open>rewritten action kvs\<close> every top-level property but
  \<^verbatim>\<open>scripts\<close> is unchanged and in place, the top-level keys are the old ones (with
  \<^verbatim>\<open>scripts\<close> appended when an add had to create it), \<^verbatim>\<open>scripts\<close> is an object (or still
  absent after a remove), every script but \<^verbatim>\<open>prisma:generate\<close> is unchanged and in place,
  and \<^verbatim>\<open>prisma:generate\<close> is \<^verbatim>\<open>prisma generate\<close> after an add (in its old place, or last
  when it is new) and absent after a remove.
\<close>

theorem manifest_rewrite_frame:
  assumes "readFileSync h (joinPath [cwd, ''package.json'']) (machine w) = Inr contents"
    and "jsonParse h contents = Inr (JObj kvs)"
    and "map_of kvs generateKey = None"
    and "map_of kvs ''scripts'' = None \<or> (\<exists>sc. map_of kvs ''scripts'' = Some (JObj sc))"
    and "managePackageScripts h action cwd w = Inr w'"
  shows "writeFileSync h (joinPath [cwd, ''package.json''])
           (stringify (rewritten action kvs)) (machine w) = Inr (machine w')
       \<and> calls w' = calls w @
           [ReadFile (joinPath [cwd, ''package.json'']),
            WriteFile (joinPath [cwd, ''package.json'']) (stringify (rewritten action kvs))]
       \<and> (\<exists>kvs' sc'.
             rewritten action kvs = JObj kvs'
           \<and> filter (\<lambda>e. fst e \<noteq> ''scripts'') kvs' = filter (\<lambda>e. fst e \<noteq> ''scripts'') kvs
           \<and> map fst kvs'
               = (if action = Add \<and> map_of kvs ''scripts'' = None
                  then map fst kvs @ [''scripts''] else map fst kvs)
           \<and> map_of kvs' ''scripts''
               = (if action = Remove \<and> map_of kvs ''scripts'' = None
                  then None else Some (JObj sc'))
           \<and> filter (\<lambda>e. fst e \<noteq> ''prisma:generate'') sc'
               = filter (\<lambda>e. fst e \<noteq> ''prisma:generate'') (scriptEntries kvs)
           \<and> map fst sc'
               = (case action of
                    Add \<Rightarrow>
                      if map_of (scriptEntries kvs) ''prisma:generate'' = None
                      then map fst (scriptEntries kvs) @ [''prisma:generate'']
                      else map fst (scriptEntries kvs)
                  | Remove \<Rightarrow>
                      filter (\<lambda>k. k \<noteq> ''prisma:generate'') (map fst (scriptEntries kvs)))
           \<and> map_of sc' ''prisma:generate''
               = (case action of Add \<Rightarrow> Some (JStr ''prisma generate'') | Remove \<Rightarrow> None))"
proof -
  from assms(4) have noarr: "\<forall>xs. map_of kvs ''scripts'' \<noteq> Some (JArr xs)" by auto
  have "(case action of
           Add \<Rightarrow> lodashSet (JObj kvs) generateKey (JStr ''prisma generate'')
         | Remove \<Rightarrow> lodashUnset (JObj kvs) generateKey) = rewritten action kvs"
    by (cases action)
       (simp_all add: rewritten_def set_is_withGenerate[OF assms(3) noarr]
          unset_is_withoutGenerate[OF assms(3)])
  with managePackageScripts_steps[OF assms(5)] assms(1,2)
  have "writeFileSync h (joinPath [cwd, ''package.json''])
           (stringify (rewritten action kvs)) (machine w) = Inr (machine w')"
    and "calls w' = calls w @
           [ReadFile (joinPath [cwd, ''package.json'']),
            WriteFile (joinPath [cwd, ''package.json'']) (stringify (rewritten action kvs))]"
    by auto
  with rewritten_frame[OF assms(4), of action] show ?thesis by blast
qed

theorem manifest_rewrite_frame_witness:
  \<open>readFileSync (memHost fullDocs) (joinPath [''/fake-dir'', ''package.json''])
        (machine \<lparr>machine = fullDisk, calls = []\<rparr>)
     = Inr ''{"name":"fn1","scripts":{"build":"tsc","prisma:generate":"prisma generate"},"version":"1.0.0"}''
   \<and> jsonParse (memHost fullDocs)
        ''{"name":"fn1","scripts":{"build":"tsc","prisma:generate":"prisma generate"},"version":"1.0.0"}''
     = Inr (JObj [(''name'', JStr ''fn1''),
                  (''scripts'', JObj [(''build'', JStr ''tsc''),
                                      (''prisma:generate'', JStr ''prisma generate'')]),
                  (''version'', JStr ''1.0.0'')])
   \<and> managePackageScripts (memHost fullDocs) Remove ''/fake-dir''
        \<lparr>machine = fullDisk, calls = []\<rparr>
     = Inr \<lparr>machine =
         [(''/fake-dir'', Dir),
          (''/fake-dir/package.json'',
             File (''{'' @ nl @ ''  "name": "fn1",'' @ nl @ ''  "scripts": {'' @ nl
               @ ''    "build": "tsc"'' @ nl @ ''  },'' @ nl @ ''  "version": "1.0.0"'' @ nl
               @ ''}''))],
         calls =
           [ReadFile ''/fake-dir/package.json'',
            WriteFile ''/fake-dir/package.json''
              (''{'' @ nl @ ''  "name": "fn1",'' @ nl @ ''  "scripts": {'' @ nl
               @ ''    "build": "tsc"'' @ nl @ ''  },'' @ nl @ ''  "version": "1.0.0"'' @ nl
               @ ''}'')]\<rparr>
   \<and> rewritten Remove
        [(''name'', JStr ''fn1''),
         (''scripts'', JObj [(''build'', JStr ''tsc''),
                             (''prisma:generate'', JStr ''prisma generate'')]),
         (''version'', JStr ''1.0.0'')]
     = JObj [(''name'', JStr ''fn1''),
             (''scripts'', JObj [(''build'', JStr ''tsc'')]),
             (''version'', JStr ''1.0.0'')]
   \<and> writeFileSync (memHost fullDocs) (joinPath [''/fake-dir'', ''package.json''])
        (stringify (JObj [(''name'', JStr ''fn1''),
                          (''scripts'', JObj [(''build'', JStr ''tsc'')]),
                          (''version'', JStr ''1.0.0'')])) fullDisk
     = Inr [(''/fake-dir'', Dir),
            (''/fake-dir/package.json'',
               File (''{'' @ nl @ ''  "name": "fn1",'' @ nl @ ''  "scripts": {'' @ nl
                 @ ''    "build": "tsc"'' @ nl @ ''  },'' @ nl @ ''  "version": "1.0.0"'' @ nl
                 @ ''}''))]\<close>
  (is \<open>?a \<and> ?b \<and> ?run = Inr ?W \<and> ?r \<and> ?wr\<close>)
proof -
  have a: \<open>?a\<close> by code_simp
  have b: \<open>?b\<close> by code_simp
  have c: "map_of [(''name'', JStr ''fn1''),
                  (''scripts'', JObj [(''build'', JStr ''tsc''),
                                      (''prisma:generate'', JStr ''prisma generate'')]),
                  (''version'', JStr ''1.0.0'')] generateKey = None"
    by code_simp
  have d: "map_of [(''name'', JStr ''fn1''),
                  (''scripts'', JObj [(''build'', JStr ''tsc''),
                                      (''prisma:generate'', JStr ''prisma generate'')]),
                  (''version'', JStr ''1.0.0'')] ''scripts'' = None
           \<or> (\<exists>sc. map_of [(''name'', JStr ''fn1''),
                  (''scripts'', JObj [(''build'', JStr ''tsc''),
                                      (''prisma:generate'', JStr ''prisma generate'')]),
                  (''version'', JStr ''1.0.0'')] ''scripts'' = Some (JObj sc))"
    by simp
  have e: \<open>?run = Inr ?W\<close> by code_simp
  have r: \<open>?r\<close> by code_simp
  from manifest_rewrite_frame[OF a b c d e]
  have "writeFileSync (memHost fullDocs) (joinPath [''/fake-dir'', ''package.json''])
          (stringify (rewritten Remove
             [(''name'', JStr ''fn1''),
              (''scripts'', JObj [(''build'', JStr ''tsc''),
                                  (''prisma:generate'', JStr ''prisma generate'')]),
              (''version'', JStr ''1.0.0'')]))
          (machine \<lparr>machine = fullDisk, calls = []\<rparr>)
        = Inr (machine ?W)"
    by (rule conjunct1)
  then have \<open>?wr\<close>
    unfolding r by (simp only: world.simps)
  with a b e r show ?thesis by blast
qed

text \<open>
  lodash takes a path string that is itself the name of a property of the object as
  that property. On a manifest with a top-level property \<^verbatim>\<open>scripts.prisma:generate\<close> the
  add overwrites that property and leaves \<^verbatim>\<open>scripts\<close> as it was.
\<close>

theorem dotted_key_overwritten:
  \<open>jsonParse (memHost dottedDocs) ''{"scripts.prisma:generate":"mine","scripts":{}}''
     = Inr (JObj [(''scripts.prisma:generate'', JStr ''mine''), (''scripts'', JObj [])])
   \<and> managePackageScripts (memHost dottedDocs) Add ''/fake-dir''
        \<lparr>machine = dottedDisk, calls = []\<rparr>
     = Inr \<lparr>machine =
         [(''/fake-dir'', Dir),
          (''/fake-dir/package.json'',
             File (''{'' @ nl @ ''  "scripts.prisma:generate": "prisma generate",'' @ nl
               @ ''  "scripts": {}'' @ nl @ ''}''))],
         calls =
           [ReadFile ''/fake-dir/package.json'',
            WriteFile ''/fake-dir/package.json''
              (''{'' @ nl @ ''  "scripts.prisma:generate": "prisma generate",'' @ nl
               @ ''  "scripts": {}'' @ nl @ ''}'')]\<rparr>
   \<and> lodashSet (JObj [(''scripts.prisma:generate'', JStr ''mine''), (''scripts'', JObj [])])
        generateKey (JStr ''prisma generate'')
     = JObj [(''scripts.prisma:generate'', JStr ''prisma generate''), (''scripts'', JObj [])]
   \<and> own dottedManifest ''scripts.prisma:generate'' = Some (JStr ''mine'')
   \<and> own (lodashSet dottedManifest generateKey (JStr ''prisma generate''))
        ''scripts.prisma:generate'' = Some (JStr ''prisma generate'')
   \<and> own (lodashSet dottedManifest generateKey (JStr ''prisma generate'')) ''scripts''
     = Some (JObj [])\<close>
  by code_simp




subsection \<open>Tool Lifecycle Manager\<close>

text \<open>
  C9 (as amended). Take a manifest that parses to an object with no property named by
  the whole path \<^verbatim>\<open>scripts.prisma:generate\<close> and whose \<^verbatim>\<open>scripts\<close> is no array. A completed
  install step has narrated, read the manifest, written it back with
  \<^verbatim>\<open>prisma:generate\<close> set to \<^verbatim>\<open>prisma generate\<close> in its \<^verbatim>\<open>scripts\<close> object, and then
  run, on the machine this write left, one command: the configured package manager
  (\<^verbatim>\<open>npm\<close> when none is configured) with \<^verbatim>\<open>install -D\<close> and the specifier, which is
  \<^verbatim>\<open>prisma@\<close> followed by the configured version when that setting is truthy, and the
  bare \<^verbatim>\<open>prisma\<close> when it is not (absent, empty, zero, false or null). The machine after
  the step is what this command left.
\<close>

theorem install_step:
  assumes "installPrismaPackage h s cwd w = Inr w'"
    and "readFileSync h (joinPath [cwd, ''package.json'']) (machine w) = Inr contents"
    and "jsonParse h contents = Inr (JObj kvs)"
    and "map_of kvs generateKey = None"
    and "\<forall>xs. map_of kvs ''scripts'' \<noteq> Some (JArr xs)"
  shows "\<exists>m1 kvs' sc'.
           withGenerate kvs = JObj kvs'
         \<and> map_of kvs' ''scripts'' = Some (JObj sc')
         \<and> map_of sc' ''prisma:generate'' = Some (JStr ''prisma generate'')
         \<and> writeFileSync h (joinPath [cwd, ''package.json'']) (stringify (withGenerate kvs))
             (machine w) = Inr m1
         \<and> execSync h
             (joinElem (getOr (tree s) ''service.custom.webpack.packager'' (JStr ''npm''))
                @ '' install -D ''
                @ (if truthy (getOr (tree s) ''service.custom.prisma.version'' (JStr []))
                   then ''prisma@''
                        @ joinElem (getOr (tree s) ''service.custom.prisma.version'' (JStr []))
                   else ''prisma''))
             cwd m1 = Inr (machine w')
         \<and> calls w' = calls w @
             [Log ''Installing prisma devDependencies...'',
              ReadFile (joinPath [cwd, ''package.json'']),
              WriteFile (joinPath [cwd, ''package.json'']) (stringify (withGenerate kvs)),
              Exec (joinElem (getOr (tree s) ''service.custom.webpack.packager'' (JStr ''npm''))
                      @ '' install -D ''
                      @ (if truthy (getOr (tree s) ''service.custom.prisma.version'' (JStr []))
                         then ''prisma@''
                              @ joinElem
                                  (getOr (tree s) ''service.custom.prisma.version'' (JStr []))
                         else ''prisma''))
                   cwd]"
proof -
  let ?cmd = "joinElem (getOr (tree s) ''service.custom.webpack.packager'' (JStr ''npm''))
                @ '' install -D ''
                @ (if truthy (getOr (tree s) ''service.custom.prisma.version'' (JStr []))
                   then ''prisma@''
                        @ joinElem (getOr (tree s) ''service.custom.prisma.version'' (JStr []))
                   else ''prisma'')"
  from assms(1) obtain w2 where
    w2: "managePackageScripts h Add cwd (emit (Log ''Installing prisma devDependencies...'') w)
           = Inr w2"
    and w': "runCommand h (getPackageManager s) [''install'', ''-D'', packageSpecifier s] cwd w2
               = Inr w'"
    by (auto simp: installPrismaPackage_def andThen_Inr log_Inr)
  from managePackageScripts_steps[OF w2] assms(2,3)
  have wr: "writeFileSync h (joinPath [cwd, ''package.json''])
              (stringify (lodashSet (JObj kvs) generateKey (JStr ''prisma generate'')))
              (machine w) = Inr (machine w2)"
    and c2: "calls w2 = calls w @
             [Log ''Installing prisma devDependencies...'',
              ReadFile (joinPath [cwd, ''package.json'']),
              WriteFile (joinPath [cwd, ''package.json''])
                (stringify (lodashSet (JObj kvs) generateKey (JStr ''prisma generate'')))]"
    by (auto simp: calls_emit machine_emit)
  have cmd: "joinElem (getPackageManager s) @ '' ''
               @ joinWith '' '' [''install'', ''-D'', packageSpecifier s] = ?cmd"
    by (simp add: getPackageManager_def packageSpecifier_def getPrismaVersion_def)
  from runCommand_steps[OF w'] have
    ex: "execSync h ?cmd cwd (machine w2) = Inr (machine w')"
    and c': "calls w' = calls w2 @ [Exec ?cmd cwd]"
    unfolding cmd by simp_all
  note eq = set_is_withGenerate[OF assms(4,5)]
  have "withGenerate kvs
          = JObj (assign kvs ''scripts''
              (JObj (assign (scriptEntries kvs) ''prisma:generate'' (JStr ''prisma generate''))))"
    by (simp add: withGenerate_def)
  moreover have "map_of (assign kvs ''scripts''
              (JObj (assign (scriptEntries kvs) ''prisma:generate'' (JStr ''prisma generate''))))
            ''scripts''
          = Some (JObj (assign (scriptEntries kvs) ''prisma:generate''
                          (JStr ''prisma generate'')))"
    by (simp add: map_of_assign)
  moreover have "map_of (assign (scriptEntries kvs) ''prisma:generate''
                           (JStr ''prisma generate'')) ''prisma:generate''
          = Some (JStr ''prisma generate'')"
    by (simp add: map_of_assign)
  ultimately show ?thesis
    using wr c2 ex c' unfolding eq by (intro exI conjI) simp_all
qed

theorem install_step_witness:
  \<open>installPrismaPackage (toolHost pipelineDocs) pipelineService ''/service/path/.webpack/fn3''
       \<lparr>machine = pipelineDisk, calls = []\<rparr>
     = Inr \<lparr>machine = installedDisk,
            calls =
              [Log ''Installing prisma devDependencies...'',
               ReadFile ''/service/path/.webpack/fn3/package.json'',
               WriteFile ''/service/path/.webpack/fn3/package.json''
                 (''{'' @ nl @ ''  "scripts": {'' @ nl @ ''    "build": "tsc",'' @ nl
                  @ ''    "prisma:generate": "prisma generate"'' @ nl @ ''  }'' @ nl @ ''}''),
               Exec ''pnpm install -D prisma@5.0.0'' ''/service/path/.webpack/fn3'']\<rparr>
   \<and> readFileSync (toolHost pipelineDocs)
        (joinPath [''/service/path/.webpack/fn3'', ''package.json''])
        (machine \<lparr>machine = pipelineDisk, calls = []\<rparr>)
     = Inr ''{"scripts":{"build":"tsc"}}''
   \<and> jsonParse (toolHost pipelineDocs) ''{"scripts":{"build":"tsc"}}''
     = Inr (JObj [(''scripts'', JObj [(''build'', JStr ''tsc'')])])
   \<and> withGenerate [(''scripts'', JObj [(''build'', JStr ''tsc'')])]
     = JObj [(''scripts'', JObj [(''build'', JStr ''tsc''),
                                 (''prisma:generate'', JStr ''prisma generate'')])]
   \<and> (\<exists>m1. writeFileSync (toolHost pipelineDocs) ''/service/path/.webpack/fn3/package.json''
               (''{'' @ nl @ ''  "scripts": {'' @ nl @ ''    "build": "tsc",'' @ nl
                  @ ''    "prisma:generate": "prisma generate"'' @ nl @ ''  }'' @ nl @ ''}'')
               pipelineDisk = Inr m1
           \<and> execSync (toolHost pipelineDocs) ''pnpm install -D prisma@5.0.0''
               ''/service/path/.webpack/fn3'' m1 = Inr installedDisk)\<close>
  (is \<open>?run = Inr ?W \<and> ?a \<and> ?b \<and> ?g \<and> ?rest\<close>)
proof -
  have r: \<open>?run = Inr ?W\<close> by code_simp
  have a: \<open>?a\<close> by code_simp
  have b: \<open>?b\<close> by code_simp
  have g: \<open>?g\<close> by code_simp
  have k: "map_of [(''scripts'', JObj [(''build'', JStr ''tsc'')])] generateKey = None"
    by code_simp
  have n: "\<forall>xs. map_of [(''scripts'', JObj [(''build'', JStr ''tsc'')])] ''scripts''
                  \<noteq> Some (JArr xs)"
    by simp
  have p: "joinPath [''/service/path/.webpack/fn3'', ''package.json'']
             = ''/service/path/.webpack/fn3/package.json''"
    by code_simp
  have t: \<open>stringify (JObj [(''scripts'', JObj [(''build'', JStr ''tsc''),
                                 (''prisma:generate'', JStr ''prisma generate'')])])
             = ''{'' @ nl @ ''  "scripts": {'' @ nl @ ''    "build": "tsc",'' @ nl
                  @ ''    "prisma:generate": "prisma generate"'' @ nl @ ''  }'' @ nl @ ''}''\<close>
    by code_simp
  have c: "joinElem (getOr (tree pipelineService) ''service.custom.webpack.packager''
                       (JStr ''npm''))
             @ '' install -D ''
             @ (if truthy (getOr (tree pipelineService) ''service.custom.prisma.version''
                             (JStr []))
                then ''prisma@''
                     @ joinElem (getOr (tree pipelineService) ''service.custom.prisma.version''
                                   (JStr []))
                else ''prisma'')
           = ''pnpm install -D prisma@5.0.0''"
    by code_simp
  from install_step[OF r a b k n] have \<open>?rest\<close>
    unfolding c g t p by auto
  with r a b g show ?thesis by blast
qed

text \<open>
  On a manifest whose \<^verbatim>\<open>scripts\<close> is an array the install step completes and issues its
  command, but the manifest it has written holds no generation script: lodash assigns
  the key to the array, and \<^verbatim>\<open>JSON.stringify\<close> prints no named property of an array.
\<close>

theorem install_on_array_scripts:
  \<open>installPrismaPackage (memHost arrayDocs) versionService ''/fake-dir''
       \<lparr>machine = arrayDisk, calls = []\<rparr>
     = Inr \<lparr>machine =
              [(''/fake-dir'', Dir),
               (''/fake-dir/package.json'', File (''{'' @ nl @ ''  "scripts": []'' @ nl @ ''}''))],
            calls =
              [Log ''Installing prisma devDependencies...'',
               ReadFile ''/fake-dir/package.json'',
               WriteFile ''/fake-dir/package.json'' (''{'' @ nl @ ''  "scripts": []'' @ nl @ ''}''),
               Exec ''npm install -D prisma@5.0.0'' ''/fake-dir'']\<rparr>
   \<and> jsonParse (memHost arrayDocs) ''{"scripts":[]}'' = Inr (JObj [(''scripts'', JArr [])])
   \<and> \<not> containsText (''{'' @ nl @ ''  "scripts": []'' @ nl @ ''}'') ''prisma:generate''\<close>
  by code_simp

subsection \<open>Schema Materializer\<close>

text \<open>
  In copy mode a second run on the same directory finds the directory, skips
  \<^verbatim>\<open>mkdirSync\<close>, copies over the file and leaves the disk as the first run left it.
\<close>

lemma copy_second_run_same:
  "managePrismaSchema (memHost []) CopySchema ''/fake-dir'' ''/prisma-dir''
       \<lparr>machine = fakeDisk, calls = []\<rparr>
     = Inr \<lparr>machine = fakeDisk
              @ [(''/fake-dir/prisma'', Dir),
                 (''/fake-dir/prisma/schema.prisma'', File ''datasource db {}'')],
            calls = [Log ''Copying Prisma schema...'',
                     Exists ''/fake-dir/prisma'',
                     Mkdir ''/fake-dir/prisma'',
                     Cp ''/prisma-dir/schema.prisma'' ''/fake-dir/prisma/schema.prisma'']\<rparr>
   \<and> managePrismaSchema (memHost []) CopySchema ''/fake-dir'' ''/prisma-dir''
       \<lparr>machine = fakeDisk
          @ [(''/fake-dir/prisma'', Dir),
             (''/fake-dir/prisma/schema.prisma'', File ''datasource db {}'')],
        calls = []\<rparr>
     = Inr \<lparr>machine = fakeDisk
              @ [(''/fake-dir/prisma'', Dir),
                 (''/fake-dir/prisma/schema.prisma'', File ''datasource db {}'')],
            calls = [Log ''Copying Prisma schema...'',
                     Exists ''/fake-dir/prisma'',
                     Cp ''/prisma-dir/schema.prisma'' ''/fake-dir/prisma/schema.prisma'']\<rparr>"
  by code_simp

text \<open>
  C3. In symlink mode the first run creates the link \<^verbatim>\<open>/fake-dir/prisma\<close>; a second run
  on the same directory calls \<^verbatim>\<open>symlinkSync\<close> on the path that now exists and ends with
  the exception \<^verbatim>\<open>EEXIST\<close>.
\<close>

theorem symlink_second_run_fails:
  \<open>managePrismaSchema (memHost []) SymlinkSchema ''/fake-dir'' ''/prisma-dir''
       \<lparr>machine = fakeDisk, calls = []\<rparr>
     = Inr \<lparr>machine = fakeDisk @ [(''/fake-dir/prisma'', Link ''../prisma-dir'')],
            calls = [Log ''Creating symlink for Prisma schema...'',
                     Symlink ''../prisma-dir'' ''/fake-dir/prisma'']\<rparr>
   \<and> managePrismaSchema (memHost []) SymlinkSchema ''/fake-dir'' ''/prisma-dir''
       \<lparr>machine = fakeDisk @ [(''/fake-dir/prisma'', Link ''../prisma-dir'')],
        calls = [Log ''Creating symlink for Prisma schema...'',
                 Symlink ''../prisma-dir'' ''/fake-dir/prisma'']\<rparr>
     = Inl (FsError EEXIST ''/fake-dir/prisma'')\<close>
  by code_simp

subsection \<open>Engine Pruner\<close>

lemma globMatch_star: "globMatch ''*'' f \<longleftrightarrow> CHR ''/'' \<notin> set f"
  by (induction f) auto

lemma globMatch_literal:
  "CHR ''*'' \<notin> set g \<Longrightarrow>
     globMatch (g @ r) f \<longleftrightarrow> startsWith f g \<and> globMatch r (drop (length g) f)"
proof (induction g arbitrary: f)
  case Nil
  then show ?case by simp
next
  case (Cons a g)
  then show ?case by (cases f) auto
qed

lemma globMatch_prefix:
  "CHR ''*'' \<notin> set g \<Longrightarrow> globMatch (g @ ''*'') f \<longleftrightarrow> beginsWith f g"
  by (simp add: globMatch_literal globMatch_star beginsWith_def)

lemma positive_engines:
  "positive (getPrismaEngines s) = map (\<lambda>g. g @ ''*'') engineNames"
  by (simp add: getPrismaEngines_def positive_def engineNames_def Let_def)

lemma negative_engines:
  "negative (getPrismaEngines s)
     = map (\<lambda>g. (g @ ''-'' @ platformText (getArchitecture s)) @ ''*'') engineNames"
  by (simp add: getPrismaEngines_def negative_def engineNames_def Let_def)

lemma paired_engines:
  "getPrismaEngines s
     = concat (map (\<lambda>g. [g @ ''*'', ''!'' @ g @ ''-'' @ platformText (getArchitecture s) @ ''*''])
         engineNames)"
  by (simp add: getPrismaEngines_def engineNames_def Let_def)

lemma engineNames_literal: "g \<in> set engineNames \<Longrightarrow> CHR ''*'' \<notin> set g"
  by (auto simp: engineNames_def)

lemma mapped_platform:
  assumes "map_of getArchitectures (toText (getArchitecture s)) = Some p"
  shows "platformText (getArchitecture s) = p" and "CHR ''*'' \<notin> set p"
  using assms by (auto simp: platformText_def getArchitectures_def split: if_splits)

lemma unmapped_platform:
  assumes "map_of getArchitectures (toText (getArchitecture s)) = None"
    and "inherited (toText (getArchitecture s)) = None"
  shows "platformText (getArchitecture s) = ''undefined''"
  using assms by (simp add: platformText_def)

lemma selected_engines:
  assumes "platformText (getArchitecture s) = p" and "CHR ''*'' \<notin> set p"
  shows "selected (getPrismaEngines s) f \<longleftrightarrow> isEngine f \<and> \<not> isTargetEngine p f"
proof -
  have pos: "list_ex (\<lambda>pat. globMatch pat f) (positive (getPrismaEngines s)) \<longleftrightarrow> isEngine f"
    by (auto simp: positive_engines isEngine_def list_ex_iff globMatch_prefix
          engineNames_literal)
  have "\<And>g. g \<in> set engineNames \<Longrightarrow> CHR ''*'' \<notin> set (g @ ''-'' @ p)"
    using assms(2) by (auto dest: engineNames_literal)
  then have neg: "list_ex (\<lambda>pat. globMatch pat f) (negative (getPrismaEngines s))
          \<longleftrightarrow> isTargetEngine p f"
    by (auto simp: negative_engines assms(1) isTargetEngine_def list_ex_iff
          globMatch_prefix simp del: append_assoc)
  show ?thesis by (simp add: selected_def pos neg)
qed

lemma removeEngines_Inr:
  "removeEngines h cwd es w = Inr w' \<Longrightarrow>
     calls w' = calls w
       @ concat (map (\<lambda>e. [Log (''  - '' @ e), Rm (joinPath [cwd, e]) False]) es)"
proof (induction es arbitrary: w)
  case Nil
  then show ?case by simp
next
  case (Cons e es)
  from Cons.prems obtain w2 where
    step: "effect (Rm (joinPath [cwd, e]) False) (rmSync h (joinPath [cwd, e]) False)
             (emit (Log (''  - '' @ e)) w) = Inr w2"
    and rest: "removeEngines h cwd es w2 = Inr w'"
    by (auto simp: andThen_Inr log_Inr)
  from step have "calls w2 = calls w @ [Log (''  - '' @ e), Rm (joinPath [cwd, e]) False]"
    by (auto simp: effect_Inr calls_emit)
  with Cons.IH[OF rest] show ?case by simp
qed

lemma deleteUnusedEngines_calls:
  assumes "listFiles h cwd (machine w) = Inr found"
    and "deleteUnusedEngines h s cwd w = Inr w'"
  shows "calls w' = calls w @ Glob (getPrismaEngines s) cwd
           # prunerCalls cwd (filter (selected (getPrismaEngines s)) found)"
proof (cases "filter (selected (getPrismaEngines s)) found = []")
  case True
  with assms show ?thesis
    by (auto simp: deleteUnusedEngines_def globSync_def andThen_def prunerCalls_def calls_emit)
next
  case False
  with assms have rest:
    "removeEngines h cwd (filter (selected (getPrismaEngines s)) found)
       (emit (Log ''Removing unused Prisma engines:'') (emit (Glob (getPrismaEngines s) cwd) w))
     = Inr w'"
    by (auto simp: deleteUnusedEngines_def globSync_def andThen_Inr log_Inr Let_def)
  from removeEngines_Inr[OF rest] False show ?thesis
    by (simp add: prunerCalls_def calls_emit)
qed

lemma pruner_calls:
  assumes "platformText (getArchitecture s) = p" and "CHR ''*'' \<notin> set p"
    and "listFiles h cwd (machine w) = Inr found"
  shows "(filter (\<lambda>f. isEngine f \<and> \<not> isTargetEngine p f) found = []
            \<longrightarrow> deleteUnusedEngines h s cwd w = Inr (emit (Glob (getPrismaEngines s) cwd) w))
       \<and> (\<forall>w'. deleteUnusedEngines h s cwd w = Inr w'
            \<longrightarrow> calls w' = calls w @ Glob (getPrismaEngines s) cwd
                   # prunerCalls cwd (filter (\<lambda>f. isEngine f \<and> \<not> isTargetEngine p f) found))"
proof -
  have sel: "selected (getPrismaEngines s) = (\<lambda>f. isEngine f \<and> \<not> isTargetEngine p f)"
    using selected_engines[OF assms(1,2)] by auto
  show ?thesis
    using deleteUnusedEngines_calls[OF assms(3), of s] assms(3)
    by (auto simp: sel deleteUnusedEngines_def globSync_def andThen_def)
qed

text \<open>
  C7 (as amended). For an architecture that the mapping owns, with platform identifier
  \<open>p\<close>: every inclusion pattern is followed by the exclusion pattern of the same engine
  name, a hyphen and \<open>p\<close>. Of the files the walk finds, the pruner removes exactly the
  engines whose name does not go on with the hyphen and \<open>p\<close>, each with one forced
  \<^verbatim>\<open>rmSync\<close>, in the order found; an engine named for the target platform in this way is
  never removed. When there is nothing to remove the call succeeds and does nothing
  after its glob.
\<close>

theorem pruner_keeps_target_engines:
  assumes "map_of getArchitectures (toText (getArchitecture s)) = Some p"
    and "listFiles h cwd (machine w) = Inr found"
  shows "getPrismaEngines s
           = concat (map (\<lambda>g. [g @ ''*'', ''!'' @ g @ ''-'' @ p @ ''*'']) engineNames)
       \<and> (filter (\<lambda>f. isEngine f \<and> \<not> isTargetEngine p f) found = []
            \<longrightarrow> deleteUnusedEngines h s cwd w = Inr (emit (Glob (getPrismaEngines s) cwd) w))
       \<and> (\<forall>w'. deleteUnusedEngines h s cwd w = Inr w'
            \<longrightarrow> calls w' = calls w @ Glob (getPrismaEngines s) cwd
                   # prunerCalls cwd (filter (\<lambda>f. isEngine f \<and> \<not> isTargetEngine p f) found))"
  using paired_engines[of s] mapped_platform[OF assms(1)]
    pruner_calls[OF mapped_platform[OF assms(1)] assms(2)]
  by simp

theorem pruner_keeps_target_engines_witness:
  "map_of getArchitectures (toText (getArchitecture testService)) = Some ''rhel''
   \<and> listFiles (memHost []) ''/fake-dir'' (machine \<lparr>machine = engineDisk, calls = []\<rparr>)
       = Inr [''node_modules/prisma/libquery_engine-rhel-openssl-1.0.x.so.node'',
              ''node_modules/prisma/libquery_engine-linux-arm64-openssl-1.0.x.so.node'',
              ''node_modules/prisma/libquery_engine-debian-openssl-1.1.x.so.node'',
              ''node_modules/prisma/build/index.js'']
   \<and> deleteUnusedEngines (memHost []) testService ''/fake-dir''
        \<lparr>machine = engineDisk, calls = []\<rparr>
       = Inr \<lparr>machine =
           [(''/fake-dir'', Dir),
            (''/fake-dir/node_modules'', Dir),
            (''/fake-dir/node_modules/prisma'', Dir),
            (''/fake-dir/node_modules/prisma/libquery_engine-rhel-openssl-1.0.x.so.node'',
               File ''rhel''),
            (''/fake-dir/node_modules/prisma/build'', Dir),
            (''/fake-dir/node_modules/prisma/build/index.js'', File ''js'')],
          calls =
            Glob (getPrismaEngines testService) ''/fake-dir''
            # prunerCalls ''/fake-dir''
                [''node_modules/prisma/libquery_engine-linux-arm64-openssl-1.0.x.so.node'',
                 ''node_modules/prisma/libquery_engine-debian-openssl-1.1.x.so.node'']\<rparr>
   \<and> filter (\<lambda>f. isEngine f \<and> \<not> isTargetEngine ''rhel'' f)
        [''node_modules/prisma/libquery_engine-rhel-openssl-1.0.x.so.node'',
         ''node_modules/prisma/libquery_engine-linux-arm64-openssl-1.0.x.so.node'',
         ''node_modules/prisma/libquery_engine-debian-openssl-1.1.x.so.node'',
         ''node_modules/prisma/build/index.js'']
       = [''node_modules/prisma/libquery_engine-linux-arm64-openssl-1.0.x.so.node'',
          ''node_modules/prisma/libquery_engine-debian-openssl-1.1.x.so.node'']"
  (is "?a \<and> ?b \<and> ?run = Inr ?W \<and> ?d")
proof -
  have a: ?a by code_simp
  have b: ?b by code_simp
  have c: "?run = Inr ?W" by code_simp
  from pruner_keeps_target_engines[OF a b] c
  have "calls ?W = [] @ Glob (getPrismaEngines testService) ''/fake-dir''
          # prunerCalls ''/fake-dir'' (filter (\<lambda>f. isEngine f \<and> \<not> isTargetEngine ''rhel'' f)
        [''node_modules/prisma/libquery_engine-rhel-openssl-1.0.x.so.node'',
         ''node_modules/prisma/libquery_engine-linux-arm64-openssl-1.0.x.so.node'',
         ''node_modules/prisma/libquery_engine-debian-openssl-1.1.x.so.node'',
         ''node_modules/prisma/build/index.js''])"
    by simp
  moreover have d: ?d by code_simp
  ultimately show ?thesis using a b c by blast
qed

text \<open>
  The specification speaks of every engine whose name contains the platform
  identifier. An engine that carries the identifier anywhere but right after the engine
  name and its hyphen is matched by the inclusion pattern only, and is deleted.
\<close>

theorem custom_rhel_engine_deleted:
  "containsText ''libquery_engine-custom-rhel.so.node'' ''rhel''
   \<and> map_of getArchitectures (toText (getArchitecture testService)) = Some ''rhel''
   \<and> deleteUnusedEngines (memHost []) testService ''/fake-dir''
        \<lparr>machine = customEngineDisk, calls = []\<rparr>
       = Inr \<lparr>machine =
           [(''/fake-dir'', Dir),
            (''/fake-dir/node_modules'', Dir),
            (''/fake-dir/node_modules/prisma'', Dir),
            (''/fake-dir/node_modules/prisma/libquery_engine-rhel-openssl-1.0.x.so.node'',
               File ''rhel''),
            (''/fake-dir/node_modules/prisma/build'', Dir),
            (''/fake-dir/node_modules/prisma/build/index.js'', File ''js'')],
          calls =
            [Glob (getPrismaEngines testService) ''/fake-dir'',
             Log ''Removing unused Prisma engines:'',
             Log ''  - node_modules/prisma/libquery_engine-linux-arm64-openssl-1.0.x.so.node'',
             Rm ''/fake-dir/node_modules/prisma/libquery_engine-linux-arm64-openssl-1.0.x.so.node''
               False,
             Log ''  - node_modules/prisma/libquery_engine-debian-openssl-1.1.x.so.node'',
             Rm ''/fake-dir/node_modules/prisma/libquery_engine-debian-openssl-1.1.x.so.node''
               False,
             Log ''  - node_modules/prisma/libquery_engine-custom-rhel.so.node'',
             Rm ''/fake-dir/node_modules/prisma/libquery_engine-custom-rhel.so.node'' False]\<rparr>"
  by code_simp

text \<open>
  C1 (as amended). An architecture that the mapping does not own (and that names no
  member of \<^verbatim>\<open>Object.prototype\<close>) is not rejected: the lookup is \<^verbatim>\<open>undefined\<close>, every
  exclusion pattern is built with the word \<^verbatim>\<open>undefined\<close>, and the pruner goes on to
  delete every engine whose name does not go on with \<^verbatim>\<open>-undefined\<close>.
\<close>

theorem unmapped_architecture_prunes_all:
  assumes "map_of getArchitectures (toText (getArchitecture s)) = None"
    and "inherited (toText (getArchitecture s)) = None"
    and "listFiles h cwd (machine w) = Inr found"
  shows "getPrismaEngines s
           = concat (map (\<lambda>g. [g @ ''*'', ''!'' @ g @ ''-undefined*'']) engineNames)
       \<and> (filter (\<lambda>f. isEngine f \<and> \<not> isTargetEngine ''undefined'' f) found = []
            \<longrightarrow> deleteUnusedEngines h s cwd w = Inr (emit (Glob (getPrismaEngines s) cwd) w))
       \<and> (\<forall>w'. deleteUnusedEngines h s cwd w = Inr w'
            \<longrightarrow> calls w' = calls w @ Glob (getPrismaEngines s) cwd
                   # prunerCalls cwd
                       (filter (\<lambda>f. isEngine f \<and> \<not> isTargetEngine ''undefined'' f) found))"
proof -
  have u: "platformText (getArchitecture s) = ''undefined''"
    by (rule unmapped_platform[OF assms(1,2)])
  have "CHR ''*'' \<notin> set ''undefined''" by simp
  from pruner_calls[OF u this assms(3)] paired_engines[of s] u
  show ?thesis by simp
qed

theorem unmapped_architecture_prunes_all_witness:
  "map_of getArchitectures (toText (getArchitecture amd64Service)) = None
   \<and> inherited (toText (getArchitecture amd64Service)) = None
   \<and> listFiles (memHost []) ''/fake-dir'' (machine \<lparr>machine = engineDisk, calls = []\<rparr>)
       = Inr [''node_modules/prisma/libquery_engine-rhel-openssl-1.0.x.so.node'',
              ''node_modules/prisma/libquery_engine-linux-arm64-openssl-1.0.x.so.node'',
              ''node_modules/prisma/libquery_engine-debian-openssl-1.1.x.so.node'',
              ''node_modules/prisma/build/index.js'']
   \<and> getPrismaEngines amd64Service
       = concat (map (\<lambda>g. [g @ ''*'', ''!'' @ g @ ''-undefined*'']) engineNames)"
  (is "?a \<and> ?b \<and> ?c \<and> ?d")
proof -
  have a: ?a by code_simp
  have b: ?b by code_simp
  have c: ?c by code_simp
  from unmapped_architecture_prunes_all[OF a b c] have ?d by blast
  with a b c show ?thesis by blast
qed

text \<open>
  With the architecture \<^verbatim>\<open>amd64\<close> no exception is raised, and the engines of all three
  platforms are deleted.
\<close>

theorem unmapped_architecture_accepted:
  "map_of getArchitectures (toText (getArchitecture amd64Service)) = None
   \<and> deleteUnusedEngines (memHost []) amd64Service ''/fake-dir''
        \<lparr>machine = engineDisk, calls = []\<rparr>
       = Inr \<lparr>machine =
           [(''/fake-dir'', Dir),
            (''/fake-dir/node_modules'', Dir),
            (''/fake-dir/node_modules/prisma'', Dir),
            (''/fake-dir/node_modules/prisma/build'', Dir),
            (''/fake-dir/node_modules/prisma/build/index.js'', File ''js'')],
          calls =
            [Glob [''node_modules/.prisma/client/libquery_engine*'',
                   ''!node_modules/.prisma/client/libquery_engine-undefined*'',
                   ''node_modules/prisma/libquery_engine*'',
                   ''!node_modules/prisma/libquery_engine-undefined*'',
                   ''node_modules/@prisma/engines/libquery_engine*'',
                   ''!node_modules/@prisma/engines/libquery_engine-undefined*'',
                   ''node_modules/@prisma/engines/migration-engine*'',
                   ''!node_modules/@prisma/engines/migration-engine-undefined*'',
                   ''node_modules/@prisma/engines/prisma-fmt*'',
                   ''!node_modules/@prisma/engines/prisma-fmt-undefined*'',
                   ''node_modules/@prisma/engines/introspection-engine*'',
                   ''!node_modules/@prisma/engines/introspection-engine-undefined*'',
                   ''node_modules/@prisma/engines/schema-engine*'',
                   ''!node_modules/@prisma/engines/schema-engine-undefined*'']
               ''/fake-dir'',
             Log ''Removing unused Prisma engines:'',
             Log ''  - node_modules/prisma/libquery_engine-rhel-openssl-1.0.x.so.node'',
             Rm ''/fake-dir/node_modules/prisma/libquery_engine-rhel-openssl-1.0.x.so.node''
               False,
             Log ''  - node_modules/prisma/libquery_engine-linux-arm64-openssl-1.0.x.so.node'',
             Rm ''/fake-dir/node_modules/prisma/libquery_engine-linux-arm64-openssl-1.0.x.so.node''
               False,
             Log ''  - node_modules/prisma/libquery_engine-debian-openssl-1.1.x.so.node'',
             Rm ''/fake-dir/node_modules/prisma/libquery_engine-debian-openssl-1.1.x.so.node''
               False]\<rparr>"
  by code_simp

subsection \<open>Orchestrator\<close>

lemma configured_packager: "joinElem (getPackageManager s) = configuredPackager s"
  by (simp add: configuredPackager_def getPackageManager_def)

lemma configured_specifier: "packageSpecifier s = configuredSpecifier s"
  by (simp add: configuredSpecifier_def packageSpecifier_def getPrismaVersion_def Let_def)

lemma installPrismaPackage_steps:
  assumes "installPrismaPackage h s cwd w = Inr w'"
  shows "\<exists>evs. installSteps h s cwd (machine w) = Inr evs
           \<and> calls w' = calls w @ evs \<and> replay h evs (machine w) = Inr (machine w')"
proof -
  from assms obtain w2 where
    w2: "managePackageScripts h Add cwd (emit (Log ''Installing prisma devDependencies...'') w)
           = Inr w2"
    and w': "runCommand h (getPackageManager s) [''install'', ''-D'', packageSpecifier s] cwd w2
               = Inr w'"
    by (auto simp: installPrismaPackage_def andThen_Inr log_Inr)
  from managePackageScripts_steps[OF w2] obtain contents parsed where
    r: "readFileSync h (joinPath [cwd, ''package.json'']) (machine w) = Inr contents"
    and p: "jsonParse h contents = Inr parsed"
    and wr: "writeFileSync h (joinPath [cwd, ''package.json''])
              (stringify (lodashSet parsed generateKey (JStr ''prisma generate''))) (machine w)
             = Inr (machine w2)"
    and c2: "calls w2 = calls w @
             [Log ''Installing prisma devDependencies...'',
              ReadFile (joinPath [cwd, ''package.json'']),
              WriteFile (joinPath [cwd, ''package.json''])
                (stringify (lodashSet parsed generateKey (JStr ''prisma generate'')))]"
    by (auto simp: calls_emit machine_emit)
  from runCommand_steps[OF w'] have
    ex: "execSync h (configuredPackager s @ '' install -D '' @ configuredSpecifier s) cwd
           (machine w2) = Inr (machine w')"
    and c': "calls w' = calls w2
               @ [Exec (configuredPackager s @ '' install -D '' @ configuredSpecifier s) cwd]"
    by (simp_all add: configured_packager configured_specifier)
  show ?thesis
    using r p wr c2 ex c'
    by (simp add: installSteps_def andThen_def generateKey_def)
qed

lemma removePrismaPackage_steps:
  assumes "removePrismaPackage h s cwd w = Inr w'"
  shows "\<exists>evs. removeSteps h s cwd (machine w) = Inr evs
           \<and> calls w' = calls w @ evs \<and> replay h evs (machine w) = Inr (machine w')"
proof -
  from assms obtain w2 w3 where
    w2: "managePackageScripts h Remove cwd (emit (Log ''Removing prisma devDependencies...'') w)
           = Inr w2"
    and w3: "runCommand h (getPackageManager s) [''remove'', ''prisma''] cwd w2 = Inr w3"
    and w': "deletePrismaDirectories h cwd w3 = Inr w'"
    by (auto simp: removePrismaPackage_def andThen_Inr log_Inr)
  from managePackageScripts_steps[OF w2] obtain contents parsed where
    r: "readFileSync h (joinPath [cwd, ''package.json'']) (machine w) = Inr contents"
    and p: "jsonParse h contents = Inr parsed"
    and wr: "writeFileSync h (joinPath [cwd, ''package.json''])
              (stringify (lodashUnset parsed generateKey)) (machine w)
             = Inr (machine w2)"
    and c2: "calls w2 = calls w @
             [Log ''Removing prisma devDependencies...'',
              ReadFile (joinPath [cwd, ''package.json'']),
              WriteFile (joinPath [cwd, ''package.json''])
                (stringify (lodashUnset parsed generateKey))]"
    by (auto simp: calls_emit machine_emit)
  from runCommand_steps[OF w3] have
    ex: "execSync h (configuredPackager s @ '' remove prisma'') cwd (machine w2)
           = Inr (machine w3)"
    and c3: "calls w3 = calls w2 @ [Exec (configuredPackager s @ '' remove prisma'') cwd]"
    by (simp_all add: configured_packager)
  from w' obtain m4 where
    rm1: "rmSync h (joinPath [cwd, ''node_modules'', ''.bin/prisma'']) True (machine w3)
            = Inr m4"
    and rm2: "rmSync h (joinPath [cwd, ''node_modules'', ''prisma'']) True m4
            = Inr (machine w')"
    and c': "calls w' = calls w3 @ [Rm (joinPath [cwd, ''node_modules'', ''.bin/prisma'']) True,
                                    Rm (joinPath [cwd, ''node_modules'', ''prisma'']) True]"
    by (auto simp: deletePrismaDirectories_def andThen_Inr effect_Inr)
  show ?thesis
    using r p wr c2 ex c3 rm1 rm2 c'
    by (simp add: removeSteps_def andThen_def generateKey_def)
qed

lemma managePrismaSchema_steps:
  assumes "managePrismaSchema h (schemaMode s) cwd prismaDir w = Inr w'"
  shows "\<exists>evs. schemaSteps h s prismaDir cwd (machine w) = Inr evs
           \<and> calls w' = calls w @ evs \<and> replay h evs (machine w) = Inr (machine w')"
proof (cases "symlinkOn s")
  case True
  then have mode: "schemaMode s = SymlinkSchema"
    by (simp add: schemaMode_def symlinkOn_def getUseSymlink_def)
  from assms have
    "effect (Symlink (relative h cwd prismaDir) (joinPath [cwd, ''prisma'']))
       (symlinkSync h (relative h cwd prismaDir) (joinPath [cwd, ''prisma'']))
       (emit (Log ''Creating symlink for Prisma schema...'') w) = Inr w'"
    by (simp add: managePrismaSchema_def mode Let_def andThen_Inr log_Inr)
  then have "symlinkSync h (relative h cwd prismaDir) (joinPath [cwd, ''prisma'']) (machine w)
               = Inr (machine w')"
    and "calls w' = calls w @ [Log ''Creating symlink for Prisma schema...'',
           Symlink (relative h cwd prismaDir) (joinPath [cwd, ''prisma''])]"
    by (auto simp: effect_Inr calls_emit machine_emit)
  with True show ?thesis
    by (simp add: schemaSteps_def andThen_def)
next
  case False
  then have mode: "schemaMode s = CopySchema"
    by (simp add: schemaMode_def symlinkOn_def getUseSymlink_def)
  let ?t = "joinPath [cwd, ''prisma'']"
  let ?src = "joinPath [prismaDir, ''schema.prisma'']"
  let ?dst = "joinPath [?t, ''schema.prisma'']"
  let ?w2 = "emit (Exists ?t) (emit (Log ''Copying Prisma schema...'') w)"
  from assms obtain w3 where
    mk: "(if \<not> existsSync h ?t (machine w)
          then effect (Mkdir ?t) (mkdirSync h ?t) ?w2 else Inr ?w2) = Inr w3"
    and cp: "effect (Cp ?src ?dst) (cpSync h ?src ?dst) w3 = Inr w'"
    by (auto simp: managePrismaSchema_def mode Let_def andThen_Inr log_Inr machine_emit)
  from cp have cp1: "cpSync h ?src ?dst (machine w3) = Inr (machine w')"
    and cp2: "calls w' = calls w3 @ [Cp ?src ?dst]"
    by (auto simp: effect_Inr)
  show ?thesis
  proof (cases "existsSync h ?t (machine w)")
    case True
    with mk have "w3 = ?w2" by simp
    with True False cp1 cp2 show ?thesis
      by (simp add: schemaSteps_def andThen_def calls_emit machine_emit)
  next
    case no: False
    with mk have "effect (Mkdir ?t) (mkdirSync h ?t) ?w2 = Inr w3" by simp
    then have "mkdirSync h ?t (machine w) = Inr (machine w3)"
      and "calls w3 = calls w @ [Log ''Copying Prisma schema...'', Exists ?t, Mkdir ?t]"
      by (auto simp: effect_Inr calls_emit machine_emit)
    with no False cp1 cp2 show ?thesis
      by (simp add: schemaSteps_def andThen_def)
  qed
qed

lemma generatePrismaClient_steps:
  assumes "generatePrismaClient h s cwd w = Inr w'"
  shows "\<exists>evs. generateSteps s cwd (machine w) = Inr evs
           \<and> calls w' = calls w @ evs \<and> replay h evs (machine w) = Inr (machine w')"
proof -
  from assms have
    "runCommand h (getPackageManager s) [''run'', ''prisma:generate''] cwd
       (emit (Log ''Generating Prisma client...'') w) = Inr w'"
    by (auto simp: generatePrismaClient_def andThen_Inr log_Inr)
  from runCommand_steps[OF this] show ?thesis
    by (simp add: generateSteps_def configured_packager calls_emit machine_emit andThen_def)
qed

lemma removeEngines_steps:
  "removeEngines h cwd es w = Inr w' \<Longrightarrow>
     calls w' = calls w
       @ concat (map (\<lambda>e. [Log (''  - '' @ e), Rm (joinPath [cwd, e]) False]) es)
   \<and> replay h (concat (map (\<lambda>e. [Log (''  - '' @ e), Rm (joinPath [cwd, e]) False]) es))
       (machine w) = Inr (machine w')"
proof (induction es arbitrary: w)
  case Nil
  then show ?case by simp
next
  case (Cons e es)
  from Cons.prems obtain w2 where
    step: "effect (Rm (joinPath [cwd, e]) False) (rmSync h (joinPath [cwd, e]) False)
             (emit (Log (''  - '' @ e)) w) = Inr w2"
    and rest: "removeEngines h cwd es w2 = Inr w'"
    by (auto simp: andThen_Inr log_Inr)
  from step have c2: "calls w2 = calls w @ [Log (''  - '' @ e), Rm (joinPath [cwd, e]) False]"
    and m2: "rmSync h (joinPath [cwd, e]) False (machine w) = Inr (machine w2)"
    by (auto simp: effect_Inr calls_emit machine_emit)
  from Cons.IH[OF rest] c2 m2 show ?case by (simp add: andThen_def)
qed

lemma deleteUnusedEngines_steps:
  assumes "deleteUnusedEngines h s cwd w = Inr w'"
  shows "\<exists>evs. pruneSteps h s cwd (machine w) = Inr evs
           \<and> calls w' = calls w @ evs \<and> replay h evs (machine w) = Inr (machine w')"
proof -
  from assms obtain found where f: "listFiles h cwd (machine w) = Inr found"
    by (auto simp: deleteUnusedEngines_def globSync_def andThen_Inr)
  show ?thesis
  proof (cases "filter (selected (getPrismaEngines s)) found = []")
    case True
    with assms f show ?thesis
      by (auto simp: deleteUnusedEngines_def globSync_def pruneSteps_def prunerCalls_def
            andThen_def calls_emit machine_emit)
  next
    case False
    with assms f have rest:
      "removeEngines h cwd (filter (selected (getPrismaEngines s)) found)
         (emit (Log ''Removing unused Prisma engines:'')
            (emit (Glob (getPrismaEngines s) cwd) w)) = Inr w'"
      by (auto simp: deleteUnusedEngines_def globSync_def andThen_Inr log_Inr Let_def)
    from removeEngines_steps[OF rest] f False show ?thesis
      by (simp add: pruneSteps_def prunerCalls_def andThen_def calls_emit machine_emit)
  qed
qed

lemma processUnit_steps:
  assumes "processUnit h s (schemaMode s) prismaDir cwd w = Inr w'"
  shows "\<exists>evs. unitSteps h s prismaDir cwd (machine w) = Inr evs
           \<and> calls w' = calls w @ evs \<and> replay h evs (machine w) = Inr (machine w')"
proof -
  from assms obtain w1 w2 w3 w4 where
    1: "(if truthy (getInstallDeps s) then installPrismaPackage h s cwd w else Inr w) = Inr w1"
    and 2: "managePrismaSchema h (schemaMode s) cwd prismaDir w1 = Inr w2"
    and 3: "generatePrismaClient h s cwd w2 = Inr w3"
    and 4: "deleteUnusedEngines h s cwd w3 = Inr w4"
    and 5: "(if truthy (getInstallDeps s) then removePrismaPackage h s cwd w4 else Inr w4)
              = Inr w'"
    by (auto simp: processUnit_def andThen_Inr)
  have deps: "installDepsOn s = truthy (getInstallDeps s)"
    by (simp add: installDepsOn_def getInstallDeps_def)
  from 1 obtain e1 where e1:
    "(if installDepsOn s then installSteps h s cwd else noSteps) (machine w) = Inr e1"
    "calls w1 = calls w @ e1" "replay h e1 (machine w) = Inr (machine w1)"
    using installPrismaPackage_steps[of h s cwd w w1] by (auto simp: deps noSteps_def split: if_splits)
  from managePrismaSchema_steps[OF 2] obtain e2 where e2:
    "schemaSteps h s prismaDir cwd (machine w1) = Inr e2"
    "calls w2 = calls w1 @ e2" "replay h e2 (machine w1) = Inr (machine w2)"
    by blast
  from generatePrismaClient_steps[OF 3] obtain e3 where e3:
    "generateSteps s cwd (machine w2) = Inr e3"
    "calls w3 = calls w2 @ e3" "replay h e3 (machine w2) = Inr (machine w3)"
    by blast
  from deleteUnusedEngines_steps[OF 4] obtain e4 where e4:
    "pruneSteps h s cwd (machine w3) = Inr e4"
    "calls w4 = calls w3 @ e4" "replay h e4 (machine w3) = Inr (machine w4)"
    by blast
  from 5 obtain e5 where e5:
    "(if installDepsOn s then removeSteps h s cwd else noSteps) (machine w4) = Inr e5"
    "calls w' = calls w4 @ e5" "replay h e5 (machine w4) = Inr (machine w')"
    using removePrismaPackage_steps[of h s cwd w4 w'] by (auto simp: deps noSteps_def split: if_splits)
  show ?thesis
    using e1 e2 e3 e4 e5
    by (simp add: unitSteps_def followedBy_def andThen_def replay_append)
qed

lemma processUnits_steps:
  "processUnits h s (schemaMode s) prismaDir webpackDir names w = Inr w' \<Longrightarrow>
     \<exists>evs. runSteps h s prismaDir webpackDir names (machine w) = Inr evs
       \<and> calls w' = calls w @ evs \<and> replay h evs (machine w) = Inr (machine w')"
proof (induction names arbitrary: w)
  case Nil
  then show ?case by simp
next
  case (Cons f names)
  from Cons.prems obtain w1 where
    u: "processUnit h s (schemaMode s) prismaDir (joinPath [webpackDir, f]) w = Inr w1"
    and r: "processUnits h s (schemaMode s) prismaDir webpackDir names w1 = Inr w'"
    by (auto simp: andThen_Inr)
  from processUnit_steps[OF u] obtain e1 where e1:
    "unitSteps h s prismaDir (joinPath [webpackDir, f]) (machine w) = Inr e1"
    "calls w1 = calls w @ e1" "replay h e1 (machine w) = Inr (machine w1)"
    by blast
  from Cons.IH[OF r] obtain e2 where e2:
    "runSteps h s prismaDir webpackDir names (machine w1) = Inr e2"
    "calls w' = calls w1 @ e2" "replay h e2 (machine w1) = Inr (machine w')"
    by blast
  show ?case
    using e1 e2 by (simp add: followedBy_def andThen_def replay_append)
qed

text \<open>
  C5. A completed run of the entry point has made, on the machine it started on, exactly
  the calls of \<open>runSteps\<close> for the selected units in their order, in the schema directory
  and the output directory of the settings: for each unit the install (with
  install-deps), the schema step (link with the symlink option, else copy), the
  generation script, the pruning and the removal (with install-deps), each step on the
  machine the step before left and each unit on the machine the unit before left; and
  the machine after the run is what these calls, made one after the other by the host,
  leave.
\<close>

theorem orchestrator_order:
  assumes "onBeforeWebpackPackage h s w = Inr w'"
  shows "\<exists>names prismaPath out evs.
           getFunctionNames s = Inr names
         \<and> getPrismaPath s = Inr (Some (JStr prismaPath))
         \<and> getWebpackOutputPath s = Inr (Some (JStr out))
         \<and> runSteps h s (joinPath [prismaPath, ''prisma'']) (joinPath [out, ''.webpack''])
              names (machine w) = Inr evs
         \<and> calls w' = calls w @ evs
         \<and> replay h evs (machine w) = Inr (machine w')"
proof -
  from assms obtain a prismaPath b out names where
    a: "getPrismaPath s = Inr a" "asPath a = Inr prismaPath"
    and b: "getWebpackOutputPath s = Inr b" "asPath b = Inr out"
    and n: "getFunctionNames s = Inr names"
    and run: "processUnits h s (schemaMode s) (joinPath [prismaPath, ''prisma''])
                (joinPath [out, ''.webpack'']) names w = Inr w'"
    by (auto simp: onBeforeWebpackPackage_def andThen_Inr)
  from a(2) have a': "a = Some (JStr prismaPath)"
    by (auto simp: asPath_def split: option.splits json.splits)
  from b(2) have b': "b = Some (JStr out)"
    by (auto simp: asPath_def split: option.splits json.splits)
  from processUnits_steps[OF run] a(1) b(1) n a' b' show ?thesis by auto
qed

theorem orchestrator_order_witness:
  "onBeforeWebpackPackage (toolHost pipelineDocs) pipelineService
       \<lparr>machine = pipelineDisk, calls = []\<rparr> = Inr pipelineDone
   \<and> getFunctionNames pipelineService = Inr [''fn1'', ''fn3'']
   \<and> runSteps (toolHost pipelineDocs) pipelineService ''/service/path/prisma''
        ''/service/path/.webpack'' [''fn1'', ''fn3''] pipelineDisk
     = Inr (calls pipelineDone)
   \<and> replay (toolHost pipelineDocs) (calls pipelineDone) pipelineDisk
     = Inr (machine pipelineDone)"
  (is "?run = Inr pipelineDone \<and> ?n \<and> ?steps \<and> ?replay")
proof -
  have a: "?run = Inr pipelineDone" by code_simp
  have n: "?n" by code_simp
  have p: "getPrismaPath pipelineService = Inr (Some (JStr ''/service/path''))" by code_simp
  have o: "getWebpackOutputPath pipelineService = Inr (Some (JStr ''/service/path''))"
    by code_simp
  have d: "joinPath [''/service/path'', ''prisma''] = ''/service/path/prisma''"
    "joinPath [''/service/path'', ''.webpack''] = ''/service/path/.webpack''"
    by code_simp+
  from orchestrator_order[OF a] have "?steps \<and> ?replay"
    by (auto simp: n p o d)
  with a n show ?thesis by blast
qed

end
